theory Spec2Isabelle
  imports
    Main
    "HOL-Library.Word"
    "HOL-Library.Char_ord"
    "HOL-Library.List_Lexorder"
begin

section \<open>Strings of the widget callback\<close>

text \<open>
  A string of the widget's query is modelled as a \<^typ>\<open>string\<close>: a list of character
  codes.
  \<^verbatim>\<open>Array.prototype.sort()\<close> without a comparator orders strings
  lexicographically by code unit; here that is the lexicographic order of
  \<^typ>\<open>char list\<close> by character code (a proper prefix comes first). On ASCII text, which
  is what the login widget uses for its field names, code units and bytes coincide.
\<close>

text \<open>\<^verbatim>\<open>Array.prototype.join('\n')\<close>.\<close>

fun join_nl :: "string list \<Rightarrow> string" where
  "join_nl [] = []"
| "join_nl [x] = x"
| "join_nl (x # y # ys) = x @ CHR 0x0A # join_nl (y # ys)"

text \<open>
  \<^verbatim>\<open>Buffer.toString('hex')\<close> and \<^verbatim>\<open>digest('hex')\<close>: two lowercase hexadecimal
  digits per byte, high nibble first.
\<close>

definition hex_digit :: "nat \<Rightarrow> char" where
  "hex_digit n = ''0123456789abcdef'' ! (n mod 16)"

definition hex_byte :: "8 word \<Rightarrow> string" where
  "hex_byte b = [hex_digit (unat b div 16), hex_digit (unat b mod 16)]"

definition hex_of_bytes :: "8 word list \<Rightarrow> string" where
  "hex_of_bytes bs = concat (map hex_byte bs)"

section \<open>Message text, as the bot handles it\<close>

text \<open>
  The text of a Telegram message, the codes and the keys of the registry are JavaScript
  strings with characters of any kind: lists of 16-bit code units. \<open>units\<close> reads an
  ASCII or Latin-1 literal as such a string.
\<close>

type_synonym ustring = "16 word list"

definition units :: "string \<Rightarrow> ustring" where
  "units s = map of_char s"

text \<open>
  \<^verbatim>\<open>String.prototype.trim\<close> strips the white space and the line terminators of
  ECMAScript from both ends: tab, line feed, vertical tab, form feed, carriage return,
  space, no-break space, the byte order mark, the line and paragraph separators and the
  space separators of Unicode.
\<close>

definition is_space :: "16 word \<Rightarrow> bool" where
  "is_space c =
     (c \<in> set [0x0009, 0x000A, 0x000B, 0x000C, 0x000D, 0x0020, 0x00A0, 0x1680,
               0x2000, 0x2001, 0x2002, 0x2003, 0x2004, 0x2005, 0x2006, 0x2007, 0x2008,
               0x2009, 0x200A, 0x2028, 0x2029, 0x202F, 0x205F, 0x3000, 0xFEFF])"

definition trim :: "ustring \<Rightarrow> ustring" where
  "trim s = rev (dropWhile is_space (rev (dropWhile is_space s)))"

text \<open>
  \<^verbatim>\<open>String.prototype.toUpperCase\<close>. On a string of code units below 256 (ASCII and
  Latin-1) it works character by character: a to z and the accented lower-case letters
  move down by 32, the micro sign becomes the Greek capital mu, the sharp s becomes SS,
  y with diaeresis becomes its capital at 0x178, and every other character stays. On a
  string with any other character the result is that of the Unicode case mapping of the
  runtime, \<open>unicode_upper\<close>, a parameter of the model about which nothing is assumed.
\<close>

type_synonym upper_fn = "ustring \<Rightarrow> ustring"

definition upper_latin1 :: "16 word \<Rightarrow> ustring" where
  "upper_latin1 c =
     (if 0x61 \<le> c \<and> c \<le> 0x7A then [c - 0x20]
      else if c = 0xB5 then [0x039C]
      else if c = 0xDF then [0x53, 0x53]
      else if 0xE0 \<le> c \<and> c \<le> 0xFE \<and> c \<noteq> 0xF7 then [c - 0x20]
      else if c = 0xFF then [0x0178]
      else [c])"

definition toUpperCase :: "upper_fn \<Rightarrow> ustring \<Rightarrow> ustring" where
  "toUpperCase unicode_upper s =
     (if list_all (\<lambda>c. c < 0x100) s then concat (map upper_latin1 s) else unicode_upper s)"

section \<open>Hash Verifier (server.js, validateTelegramHash)\<close>

text \<open>
  The query object of the widget callback: field names with their string values, in the
  order of \<^verbatim>\<open>Object.keys\<close>. An object has every key once.
\<close>

type_synonym payload = "(string \<times> string) list"

definition well_formed :: "payload \<Rightarrow> bool" where
  "well_formed data = distinct (map fst data)"

definition object_keys :: "payload \<Rightarrow> string list" where
  "object_keys data = map fst data"

text \<open>
  Property access \<^verbatim>\<open>data[key]\<close>; an absent property is \<^verbatim>\<open>undefined\<close>
  (\<^const>\<open>None\<close>), which a template literal renders as the text "undefined".
\<close>

definition property :: "payload \<Rightarrow> string \<Rightarrow> string option" where
  "property data key = map_of data key"

definition template :: "string option \<Rightarrow> string" where
  "template v = (case v of None \<Rightarrow> ''undefined'' | Some s \<Rightarrow> s)"

text \<open>
  \<^verbatim>\<open>Object.keys(data).filter(key => key !== 'hash').map(key => `${key}=${data[key]}`)
    .sort().join('\n')\<close>
\<close>

definition checkString :: "payload \<Rightarrow> string" where
  "checkString data =
     join_nl (sort (map (\<lambda>key. key @ ''='' @ template (property data key))
       (filter (\<lambda>key. key \<noteq> ''hash'') (object_keys data))))"

text \<open>
  The two primitives of Node's \<^verbatim>\<open>crypto\<close> module are parameters of the model:
  \<open>sha256 s\<close> is \<^verbatim>\<open>createHash('sha256').update(s).digest()\<close>, the raw digest, and
  \<open>hmac_sha256 key msg\<close> is the raw digest of
  \<^verbatim>\<open>createHmac('sha256', key).update(msg)\<close>.

  \<^verbatim>\<open>BOT_TOKEN\<close> is \<^verbatim>\<open>process.env.TELEGRAM_BOT_TOKEN\<close>: \<^const>\<open>None\<close> when the variable
  is unset. \<^verbatim>\<open>!BOT_TOKEN\<close> holds for an unset and for an empty token.
\<close>

type_synonym sha256_fn = "string \<Rightarrow> 8 word list"
type_synonym hmac_fn = "8 word list \<Rightarrow> string \<Rightarrow> 8 word list"

definition falsy :: "string option \<Rightarrow> bool" where
  "falsy v = (case v of None \<Rightarrow> True | Some s \<Rightarrow> s = [])"

definition validateTelegramHash ::
  "sha256_fn \<Rightarrow> hmac_fn \<Rightarrow> string option \<Rightarrow> payload \<Rightarrow> bool" where
  "validateTelegramHash sha256 hmac_sha256 BOT_TOKEN data =
     (case BOT_TOKEN of
        None \<Rightarrow> False
      | Some token \<Rightarrow>
          if token = [] then False
          else
            let secretKey = sha256 token;
                calculatedHash = hex_of_bytes (hmac_sha256 secretKey (checkString data))
            in Some calculatedHash = property data ''hash'')"

text \<open>
  The check-string as section 4.1 of the specification words it: every field except
  \<open>hash\<close> rendered as \<open>key=value\<close>, the renderings sorted ascending, joined by line
  feeds.
\<close>

definition spec_check_string :: "payload \<Rightarrow> string" where
  "spec_check_string P =
     join_nl (sort (map (\<lambda>(k, v). k @ ''='' @ v) (filter (\<lambda>(k, v). k \<noteq> ''hash'') P)))"

section \<open>Credential Store\<close>

text \<open>
  Modelled from the spec: the Credential Store is the Supabase table
  \<^verbatim>\<open>user_telegram_settings\<close>, an external service; section 6 gives its contract
  (\<open>getLink\<close>: record, not-found or error; \<open>upsertLink\<close>: ok or error, a unique-key
  upsert on the user id). A row is keyed by \<^verbatim>\<open>user_id\<close>. Whether a call fails is
  the environment's choice, an argument of the model: \<^const>\<open>None\<close> for a call that
  goes through, the error object otherwise. A failed call leaves the table as it was.
\<close>

record link =
  telegram_chat_id :: string
  telegram_username :: "string option"

type_synonym link_table = "string \<rightharpoonup> link"

datatype db_error = DbError (code: string)

text \<open>
  The answer \<^verbatim>\<open>{ data, error }\<close> of
  \<^verbatim>\<open>.select('telegram_chat_id').eq('user_id', userId).single()\<close>: the row when there
  is one, the error \<^verbatim>\<open>PGRST116\<close> when there is none.
\<close>

datatype chat_row = ChatRow (row_telegram_chat_id: string)

record select_response =
  sel_data :: "chat_row option"
  sel_error :: "db_error option"

definition db_select_single :: "db_error option \<Rightarrow> link_table \<Rightarrow> string \<Rightarrow> select_response" where
  "db_select_single fault table uid =
     (case fault of
        Some e \<Rightarrow> \<lparr>sel_data = None, sel_error = Some e\<rparr>
      | None \<Rightarrow>
          (case table uid of
             Some l \<Rightarrow> \<lparr>sel_data = Some (ChatRow (telegram_chat_id l)), sel_error = None\<rparr>
           | None \<Rightarrow> \<lparr>sel_data = None, sel_error = Some (DbError ''PGRST116'')\<rparr>))"

text \<open>
  The object given to \<^verbatim>\<open>.upsert(row, { onConflict: 'user_id' })\<close>. The chat flow
  gives no \<^verbatim>\<open>telegram_username\<close> (\<^const>\<open>None\<close>): the column keeps its value in an
  existing row and is null in a new one.
\<close>

record upsert_row =
  user_id :: string
  chat_id :: string
  username :: "string option option"

definition db_upsert ::
  "db_error option \<Rightarrow> upsert_row \<Rightarrow> link_table \<Rightarrow> db_error option \<times> link_table" where
  "db_upsert fault row table =
     (case fault of
        Some e \<Rightarrow> (Some e, table)
      | None \<Rightarrow>
          (None,
           table(user_id row \<mapsto>
             \<lparr>telegram_chat_id = chat_id row,
              telegram_username =
                (case username row of
                   Some u \<Rightarrow> u
                 | None \<Rightarrow>
                     (case table (user_id row) of
                        Some l \<Rightarrow> telegram_username l
                      | None \<Rightarrow> None))\<rparr>)))"

section \<open>Link Resolver (getTelegramChatId, the same in server.js and in the bot server)\<close>

text \<open>
  The function awaits the select and gets its answer; the result is the pair of whether
  \<^verbatim>\<open>console.error\<close> was called and the value returned (\<^const>\<open>None\<close> for
  \<^verbatim>\<open>null\<close>).
\<close>

definition getTelegramChatId :: "select_response \<Rightarrow> bool \<times> string option" where
  "getTelegramChatId resp =
     (let logged = (case sel_error resp of
                      Some e \<Rightarrow> code e \<noteq> ''PGRST116''
                    | None \<Rightarrow> False)
      in (logged,
          case sel_data resp of
            Some row \<Rightarrow> Some (row_telegram_chat_id row)
          | None \<Rightarrow> None))"

definition resolve :: "db_error option \<Rightarrow> link_table \<Rightarrow> string \<Rightarrow> bool \<times> string option" where
  "resolve fault table userId = getTelegramChatId (db_select_single fault table userId)"

section \<open>Widget callback (server.js, GET /api/auth/telegram)\<close>

text \<open>
  How the handler ends: a redirect to
  \<^verbatim>\<open>${SUPABASE_URL}/auth/v1/callback?error=...\<close> with the error indicator given, a
  redirect to \<^verbatim>\<open>/\<close>, or the \<^verbatim>\<open>TypeError\<close> of \<^verbatim>\<open>userData.id.toString()\<close> on
  a query with no \<^verbatim>\<open>id\<close>.

  \<open>session_user\<close> is \<^verbatim>\<open>session.data.session?.user.id\<close> of
  \<^verbatim>\<open>supabase.auth.getSession()\<close>, asked of the server's own client: no argument of
  the request enters it.
\<close>

datatype outcome = RedirectError string | RedirectHome | TypeError

definition telegram_auth ::
  "sha256_fn \<Rightarrow> hmac_fn \<Rightarrow> string option \<Rightarrow> payload \<Rightarrow> string option \<Rightarrow> db_error option
     \<Rightarrow> link_table \<Rightarrow> outcome \<times> link_table" where
  "telegram_auth sha256 hmac_sha256 BOT_TOKEN userData session_user fault table =
     (if \<not> validateTelegramHash sha256 hmac_sha256 BOT_TOKEN userData
      then (RedirectError ''telegram_auth_failed'', table)
      else
        case property userData ''id'' of
          None \<Rightarrow> (TypeError, table)
        | Some telegramChatId \<Rightarrow>
            (case session_user of
               None \<Rightarrow> (RedirectError ''no_active_supabase_session'', table)
             | Some currentSupabaseUserId \<Rightarrow>
                 if currentSupabaseUserId = []
                 then (RedirectError ''no_active_supabase_session'', table)
                 else
                   let (error, table') =
                         db_upsert fault
                           \<lparr>user_id = currentSupabaseUserId,
                            chat_id = telegramChatId,
                            username =
                              Some (if falsy (property userData ''username'') then None
                                    else property userData ''username'')\<rparr>
                           table
                   in (case error of
                         Some e \<Rightarrow> (RedirectError ''database_link_failed'', table')
                       | None \<Rightarrow> (RedirectHome, table'))))"

section \<open>Code Pairing Registry (the bot server)\<close>

text \<open>
  The process state: the map \<^verbatim>\<open>linkingCodes\<close>, the callbacks that
  \<^verbatim>\<open>setTimeout\<close> has pending (due time in milliseconds and the code to delete, in the
  order they were set), the clock that \<^verbatim>\<open>Date.now()\<close> and the timers read, and the
  bot handlers suspended at their \<^verbatim>\<open>await\<close> of the upsert. The Credential Store's
  table is carried along in the same record.
\<close>

record entry =
  userId :: string
  timestamp :: nat

record pending =
  p_userId :: string
  p_telegramChatId :: string
  p_receivedCode :: ustring

record state =
  linkingCodes :: "ustring \<rightharpoonup> entry"
  timers :: "(nat \<times> ustring) list"
  clock :: nat
  db :: link_table
  inflight :: "pending list"

text \<open>At process start the map is new and no timer or handler is pending.\<close>

definition initial :: "state \<Rightarrow> bool" where
  "initial s = (linkingCodes s = Map.empty \<and> timers s = [] \<and> inflight s = [])"

definition ttl_ms :: nat where
  "ttl_ms = 10 * 60 * 1000"

subsection \<open>POST /api/link/initiate\<close>

text \<open>
  The handler after \<^verbatim>\<open>authMiddleware\<close> has set \<^verbatim>\<open>req.userId\<close>. The answer of the
  awaited lookup and the three bytes of \<^verbatim>\<open>crypto.randomBytes(3)\<close> are arguments;
  \<open>botInfo_username\<close> is \<^verbatim>\<open>bot.botInfo?.username\<close>. What follows the await runs
  without interruption. \<open>AlreadyLinked\<close> is the answer
  \<^verbatim>\<open>{ message: 'Telegram is already linked.', linked: true }\<close>; \<open>CodeIssued\<close> is the
  answer \<^verbatim>\<open>{ message, code, instructions, linked: false }\<close>.
\<close>

type_synonym bytes3 = "8 word \<times> 8 word \<times> 8 word"

definition gen_code :: "upper_fn \<Rightarrow> bytes3 \<Rightarrow> ustring" where
  "gen_code unicode_upper r =
     (case r of (b1, b2, b3) \<Rightarrow> toUpperCase unicode_upper (units (hex_of_bytes [b1, b2, b3])))"

datatype initiate_result =
    AlreadyLinked
  | CodeIssued (message: ustring) (issued_code: ustring) (instructions: ustring)

definition link_initiate ::
  "upper_fn \<Rightarrow> string option \<Rightarrow> string \<Rightarrow> select_response \<Rightarrow> bytes3 \<Rightarrow> state
     \<Rightarrow> initiate_result \<times> state" where
  "link_initiate unicode_upper botInfo_username uid resp randomBytes s =
     (let existingLink = snd (getTelegramChatId resp) in
      if \<not> falsy existingLink then (AlreadyLinked, s)
      else
        let code = gen_code unicode_upper randomBytes;
            s' = s\<lparr>linkingCodes := (linkingCodes s)(code \<mapsto> \<lparr>userId = uid, timestamp = clock s\<rparr>),
                   timers := timers s @ [(clock s + ttl_ms, code)]\<rparr>;
            botUsername = (if falsy botInfo_username then ''Your Telegram Bot''
                           else ''@'' @ template botInfo_username)
        in (CodeIssued
              (units ''Please send the following code to your Telegram Bot: **'' @ code
                 @ units ''**'')
              code
              (units (''Find your bot ('' @ botUsername
                        @ ''), start a chat, and send the code '' @ [CHR 0x22])
                 @ code @ units ([CHR 0x22] @ '' within 10 minutes.'')),
            s'))"

subsection \<open>The timers\<close>

text \<open>
  A callback runs \<^verbatim>\<open>linkingCodes.delete(code)\<close>. When the clock moves to \<open>now\<close> the
  callbacks due by then run, in the order they were set (all have the same delay, so
  that is the order they fall due), and leave the list.
\<close>

fun run_timers ::
  "nat \<Rightarrow> (nat \<times> ustring) list \<Rightarrow> (ustring \<rightharpoonup> entry) \<Rightarrow> (ustring \<rightharpoonup> entry)" where
  "run_timers now [] m = m"
| "run_timers now ((due, c) # ts) m = run_timers now ts (if due \<le> now then m(c := None) else m)"

definition advance :: "nat \<Rightarrow> state \<Rightarrow> state" where
  "advance t s =
     (let now = max (clock s) t in
      s\<lparr>clock := now,
        linkingCodes := run_timers now (timers s) (linkingCodes s),
        timers := filter (\<lambda>(due, c). now < due) (timers s)\<rparr>)"

subsection \<open>bot.on('text')\<close>

text \<open>\<^verbatim>\<open>Number.prototype.toString\<close> on the integer \<^verbatim>\<open>ctx.chat.id\<close>.\<close>

fun string_of_nat :: "nat \<Rightarrow> string" where
  "string_of_nat n =
     (if n < 10 then [''0123456789'' ! n]
      else string_of_nat (n div 10) @ [''0123456789'' ! (n mod 10)])"

definition number_toString :: "int \<Rightarrow> string" where
  "number_toString i = (if i < 0 then CHR ''-'' # string_of_nat (nat (- i)) else string_of_nat (nat i))"

text \<open>
  The three replies of the handler, under the names of section 4.2: \<open>Success\<close> is the
  reply that the account is now linked, \<open>PersistenceFailed\<close> the reply "Error linking
  your account. Please try again later.", \<open>Unrecognized\<close> the greeting that asks for a
  code from the web app.
\<close>

datatype redemption = Success | PersistenceFailed | Unrecognized

text \<open>
  The handler up to its \<^verbatim>\<open>await\<close>: it normalises the text, looks the code up and, on a
  match, starts the upsert with the user id it read from the map.
\<close>

definition normalized :: "upper_fn \<Rightarrow> ustring \<Rightarrow> ustring" where
  "normalized unicode_upper msg = toUpperCase unicode_upper (trim msg)"

datatype begin_result = NoMatch | Awaiting pending

definition text_begin :: "upper_fn \<Rightarrow> ustring \<Rightarrow> int \<Rightarrow> state \<Rightarrow> begin_result" where
  "text_begin unicode_upper msg chat s =
     (let receivedCode = normalized unicode_upper msg;
          telegramChatId = number_toString chat
      in case linkingCodes s receivedCode of
           Some e \<Rightarrow>
             Awaiting \<lparr>p_userId = userId e, p_telegramChatId = telegramChatId,
                       p_receivedCode = receivedCode\<rparr>
         | None \<Rightarrow> NoMatch)"

definition upsert_of :: "pending \<Rightarrow> upsert_row" where
  "upsert_of p = \<lparr>user_id = p_userId p, chat_id = p_telegramChatId p, username = None\<rparr>"

text \<open>The handler from the answer \<^verbatim>\<open>{ error }\<close> of the upsert on.\<close>

definition text_resume :: "pending \<Rightarrow> db_error option \<Rightarrow> state \<Rightarrow> redemption \<times> state" where
  "text_resume p error s =
     (case error of
        Some e \<Rightarrow> (PersistenceFailed, s)
      | None \<Rightarrow> (Success, s\<lparr>linkingCodes := (linkingCodes s)(p_receivedCode p := None)\<rparr>))"

text \<open>
  One message handled with nothing else running in between: the handler, the store's
  upsert, the handler again. This is \<open>redeem\<close> of section 4.2.
\<close>

definition on_text ::
  "upper_fn \<Rightarrow> db_error option \<Rightarrow> ustring \<Rightarrow> int \<Rightarrow> state \<Rightarrow> redemption \<times> state" where
  "on_text unicode_upper fault msg chat s =
     (case text_begin unicode_upper msg chat s of
        NoMatch \<Rightarrow> (Unrecognized, s)
      | Awaiting p \<Rightarrow>
          let (error, table') = db_upsert fault (upsert_of p) (db s)
          in text_resume p error (s\<lparr>db := table'\<rparr>))"

section \<open>The event loop\<close>

text \<open>
  What runs without interruption on the event loop is one event: the clock moving on
  (with the timer callbacks that fall due), an initiate request resuming from its lookup,
  a text message handled up to its await, a suspended text handler resuming with the
  answer of its upsert, a widget callback. An upsert takes effect on the table together
  with the event that resumes its caller: no handler reads the table in between, since
  every lookup's answer is an argument.

  \<open>TextResume i fault\<close> resumes the \<open>i\<close>-th suspended handler; handlers may resume
  in any order. \<open>LinkInitiate\<close> carries whatever the lookup answered.
\<close>

datatype event =
    Advance nat
  | LinkInitiate "string option" string select_response bytes3
  | TextBegin ustring int
  | TextResume nat "db_error option"
  | TelegramAuth payload "string option" "db_error option"

definition remove_nth :: "nat \<Rightarrow> 'a list \<Rightarrow> 'a list" where
  "remove_nth i xs = take i xs @ drop (Suc i) xs"

definition exec ::
  "upper_fn \<Rightarrow> sha256_fn \<Rightarrow> hmac_fn \<Rightarrow> string option \<Rightarrow> event \<Rightarrow> state \<Rightarrow> state" where
  "exec unicode_upper sha256 hmac_sha256 BOT_TOKEN ev s =
     (case ev of
        Advance t \<Rightarrow> advance t s
      | LinkInitiate botname uid resp randomBytes \<Rightarrow>
          snd (link_initiate unicode_upper botname uid resp randomBytes s)
      | TextBegin msg chat \<Rightarrow>
          (case text_begin unicode_upper msg chat s of
             NoMatch \<Rightarrow> s
           | Awaiting p \<Rightarrow> s\<lparr>inflight := inflight s @ [p]\<rparr>)
      | TextResume i fault \<Rightarrow>
          if i < length (inflight s) then
            let p = inflight s ! i;
                (error, table') = db_upsert fault (upsert_of p) (db s)
            in snd (text_resume p error (s\<lparr>db := table', inflight := remove_nth i (inflight s)\<rparr>))
          else s
      | TelegramAuth userData session_user fault \<Rightarrow>
          s\<lparr>db := snd (telegram_auth sha256 hmac_sha256 BOT_TOKEN userData session_user fault (db s))\<rparr>)"

definition run ::
  "upper_fn \<Rightarrow> sha256_fn \<Rightarrow> hmac_fn \<Rightarrow> string option \<Rightarrow> event list \<Rightarrow> state \<Rightarrow> state" where
  "run unicode_upper sha256 hmac_sha256 BOT_TOKEN es s =
     fold (exec unicode_upper sha256 hmac_sha256 BOT_TOKEN) es s"

text \<open>
  An event proves the authenticity of the link from user \<open>uid\<close> to chat \<open>chat\<close> in
  state \<open>s\<close> when it is a widget callback whose signature is valid, whose \<open>id\<close> is
  \<open>chat\<close> and which the server's session attributes to \<open>uid\<close>, or a text message
  from \<open>chat\<close> that presents a code live in the registry for \<open>uid\<close>.
\<close>

definition proves ::
  "upper_fn \<Rightarrow> sha256_fn \<Rightarrow> hmac_fn \<Rightarrow> string option \<Rightarrow> state \<Rightarrow> event \<Rightarrow> string \<Rightarrow> string
     \<Rightarrow> bool" where
  "proves unicode_upper sha256 hmac_sha256 BOT_TOKEN s ev uid chat =
     (case ev of
        TelegramAuth userData session_user fault \<Rightarrow>
          validateTelegramHash sha256 hmac_sha256 BOT_TOKEN userData
          \<and> property userData ''id'' = Some chat \<and> session_user = Some uid
      | TextBegin msg c \<Rightarrow>
          (case linkingCodes s (normalized unicode_upper msg) of
             Some e \<Rightarrow> userId e = uid \<and> number_toString c = chat
           | None \<Rightarrow> False)
      | _ \<Rightarrow> False)"

text \<open>
  What can change the entry of a code \<open>c\<close> in the registry. An event \<open>issues\<close> the
  code when it is an initiate request, for a user the lookup did not find linked, that
  draws it. An event \<open>touches\<close> the code when it issues it, when it moves the clock to
  where a pending timer of the code is due, or when it resumes, after a successful
  upsert, a handler that matched the code. A run leaves the code \<open>untouched\<close> when none of
  its events touches it in the state where the event takes place.
\<close>

definition issues :: "upper_fn \<Rightarrow> ustring \<Rightarrow> event \<Rightarrow> bool" where
  "issues unicode_upper c ev =
     (case ev of
        LinkInitiate botname uid resp randomBytes \<Rightarrow>
          falsy (snd (getTelegramChatId resp)) \<and> gen_code unicode_upper randomBytes = c
      | _ \<Rightarrow> False)"

definition touches :: "upper_fn \<Rightarrow> ustring \<Rightarrow> event \<Rightarrow> state \<Rightarrow> bool" where
  "touches unicode_upper c ev s =
     (case ev of
        Advance t \<Rightarrow> list_ex (\<lambda>(due, c'). c' = c \<and> due \<le> max (clock s) t) (timers s)
      | TextResume i fault \<Rightarrow>
          i < length (inflight s) \<and> fault = None \<and> p_receivedCode (inflight s ! i) = c
      | _ \<Rightarrow> issues unicode_upper c ev)"

fun untouched ::
  "upper_fn \<Rightarrow> sha256_fn \<Rightarrow> hmac_fn \<Rightarrow> string option \<Rightarrow> ustring \<Rightarrow> event list \<Rightarrow> state \<Rightarrow> bool" where
  "untouched U sha256 hmac_sha256 BOT_TOKEN c [] s = True"
| "untouched U sha256 hmac_sha256 BOT_TOKEN c (ev # es) s =
     (\<not> touches U c ev s
      \<and> untouched U sha256 hmac_sha256 BOT_TOKEN c es (exec U sha256 hmac_sha256 BOT_TOKEN ev s))"

text \<open>The code units of the codes: the sixteen upper-case hexadecimal digits.\<close>

definition code_digit :: "nat \<Rightarrow> 16 word" where
  "code_digit n = of_char (''0123456789ABCDEF'' ! (n mod 16))"

text \<open>
  Two predicates on what the event loop can reach. A state is \<open>fresh\<close> when every
  live code still has its own timer pending and no pending timer is overdue. A run is
  \<open>authentic\<close> when every link in the table that the run wrote, and every upsert a
  suspended handler is waiting for, goes back to an event of the run that proved it.
\<close>

definition fresh :: "state \<Rightarrow> bool" where
  "fresh s =
     ((\<forall>c e. linkingCodes s c = Some e \<longrightarrow> (timestamp e + ttl_ms, c) \<in> set (timers s))
      \<and> (\<forall>(due, c) \<in> set (timers s). clock s < due))"

definition witnessed ::
  "upper_fn \<Rightarrow> sha256_fn \<Rightarrow> hmac_fn \<Rightarrow> string option \<Rightarrow> state \<Rightarrow> event list \<Rightarrow> string
     \<Rightarrow> string \<Rightarrow> bool" where
  "witnessed U sha256 hmac_sha256 BOT_TOKEN s0 es uid chat =
     (\<exists>pre ev post. es = pre @ ev # post
        \<and> proves U sha256 hmac_sha256 BOT_TOKEN (run U sha256 hmac_sha256 BOT_TOKEN pre s0) ev uid
             chat)"

definition authentic ::
  "upper_fn \<Rightarrow> sha256_fn \<Rightarrow> hmac_fn \<Rightarrow> string option \<Rightarrow> state \<Rightarrow> event list \<Rightarrow> bool" where
  "authentic U sha256 hmac_sha256 BOT_TOKEN s0 es =
     (let s = run U sha256 hmac_sha256 BOT_TOKEN es s0 in
      (\<forall>uid l. db s uid = Some l \<longrightarrow>
         db s0 uid = Some l
         \<or> witnessed U sha256 hmac_sha256 BOT_TOKEN s0 es uid (telegram_chat_id l))
      \<and> (\<forall>p \<in> set (inflight s).
         witnessed U sha256 hmac_sha256 BOT_TOKEN s0 es (p_userId p) (p_telegramChatId p)))"

section \<open>The scenarios of section 8\<close>

text \<open>
  The process at its start with an empty table; the state after
  \<open>initiate("user-42")\<close> drew the code A3B9C4 at time 0; the lookup answers for a user
  with no row and for a lookup that failed (57014 is the store's statement timeout); the
  table in which user-42 is linked to chat 998877 and the one in which user-9 has a row
  with an empty chat id; a widget payload signed with the token T and a signed one
  that carries no id; the code typed in lower case between a no-break space and an em
  space; the two upserts that
  two messages with the code A3B9C4, from the chats 998877 and 111, wait for.
\<close>

definition start_state :: state where
  "start_state = \<lparr>linkingCodes = Map.empty, timers = [], clock = 0, db = Map.empty, inflight = []\<rparr>"

definition pairing_state :: state where
  "pairing_state =
     \<lparr>linkingCodes = [units ''A3B9C4'' \<mapsto> \<lparr>userId = ''user-42'', timestamp = 0\<rparr>],
      timers = [(600000, units ''A3B9C4'')], clock = 0, db = Map.empty, inflight = []\<rparr>"

definition not_found :: select_response where
  "not_found = \<lparr>sel_data = None, sel_error = Some (DbError ''PGRST116'')\<rparr>"

definition timed_out :: db_error where
  "timed_out = DbError ''57014''"

definition linked_table :: link_table where
  "linked_table = [''user-42'' \<mapsto> \<lparr>telegram_chat_id = ''998877'', telegram_username = None\<rparr>]"

definition signed_payload :: "sha256_fn \<Rightarrow> hmac_fn \<Rightarrow> payload" where
  "signed_payload sha256 hmac_sha256 =
     [(''id'', ''5''), (''first_name'', ''Bo''),
      (''hash'', hex_of_bytes (hmac_sha256 (sha256 ''T'') (''first_name=Bo'' @ [CHR 0x0A] @ ''id=5'')))]"

definition anonymous_payload :: "sha256_fn \<Rightarrow> hmac_fn \<Rightarrow> payload" where
  "anonymous_payload sha256 hmac_sha256 =
     [(''first_name'', ''Bo''),
      (''hash'', hex_of_bytes (hmac_sha256 (sha256 ''T'') ''first_name=Bo''))]"

definition padded_message :: ustring where
  "padded_message = 0x00A0 # units ''a3b9c4'' @ [0x2003]"

definition first_pending :: pending where
  "first_pending =
     \<lparr>p_userId = ''user-42'', p_telegramChatId = ''998877'',
      p_receivedCode = units ''A3B9C4''\<rparr>"

definition blank_table :: link_table where
  "blank_table = [''user-9'' \<mapsto> \<lparr>telegram_chat_id = [], telegram_username = None\<rparr>]"

definition second_pending :: pending where
  "second_pending =
     \<lparr>p_userId = ''user-42'', p_telegramChatId = ''111'', p_receivedCode = units ''A3B9C4''\<rparr>"

section \<open>Lemmas on the data\<close>

lemma checkString_spec:
  assumes "well_formed P"
  shows "checkString P = spec_check_string P"
proof -
  have d: "distinct (map fst P)" using assms by (simp add: well_formed_def)
  have "filter (\<lambda>key. key \<noteq> ''hash'') (map fst P)
        = map fst (filter (\<lambda>(k, v). k \<noteq> ''hash'') P)"
    by (simp add: filter_map comp_def case_prod_unfold)
  moreover have "map (\<lambda>key. key @ ''='' @ template (property P key))
        (map fst (filter (\<lambda>(k, v). k \<noteq> ''hash'') P))
      = map (\<lambda>(k, v). k @ ''='' @ v) (filter (\<lambda>(k, v). k \<noteq> ''hash'') P)"
    using d by (auto simp: property_def template_def)
  ultimately have "map (\<lambda>key. key @ ''='' @ template (property P key))
        (filter (\<lambda>key. key \<noteq> ''hash'') (map fst P))
      = map (\<lambda>(k, v). k @ ''='' @ v) (filter (\<lambda>(k, v). k \<noteq> ''hash'') P)"
    by simp
  then show ?thesis by (simp add: checkString_def spec_check_string_def object_keys_def)
qed

lemma signed_payload_check_string:
  "spec_check_string (signed_payload sha256 hmac_sha256) = ''first_name=Bo'' @ [CHR 0x0A] @ ''id=5''"
  by (simp add: spec_check_string_def signed_payload_def)

lemma signed_payload_well_formed: "well_formed (signed_payload sha256 hmac_sha256)"
  by (simp add: well_formed_def signed_payload_def)

lemma signed_payload_valid:
  "validateTelegramHash sha256 hmac_sha256 (Some ''T'') (signed_payload sha256 hmac_sha256)"
proof -
  have "checkString (signed_payload sha256 hmac_sha256) = ''first_name=Bo'' @ [CHR 0x0A] @ ''id=5''"
    by (simp only: checkString_spec [OF signed_payload_well_formed] signed_payload_check_string)
  then show ?thesis
    by (simp add: validateTelegramHash_def property_def signed_payload_def)
qed

lemma example_chat: "number_toString 998877 = ''998877''"
  by (simp add: number_toString_def)

lemma example_other_chat: "number_toString 111 = ''111''"
  by (simp add: number_toString_def)

text \<open>The codes: upper-case hexadecimal, one code per three bytes, fixed by the normalisation.\<close>

lemma code_digit_list:
  "list_all (\<lambda>c. \<not> is_space (of_char c) \<and> (of_char c :: 16 word) < 0x100
             \<and> upper_latin1 (of_char c) = [of_char c]) ''0123456789ABCDEF''"
  by (simp add: upper_latin1_def is_space_def)

lemma code_digit_facts:
  "\<not> is_space (code_digit n) \<and> code_digit n < 0x100 \<and> upper_latin1 (code_digit n) = [code_digit n]"
proof -
  have "''0123456789ABCDEF'' ! (n mod 16) \<in> set ''0123456789ABCDEF''"
    by (rule nth_mem) simp
  with code_digit_list show ?thesis
    unfolding code_digit_def list_all_iff by blast
qed

lemma hex_upper_map:
  "map (\<lambda>c. upper_latin1 (of_char c)) ''0123456789abcdef''
   = map (\<lambda>c. [of_char c]) ''0123456789ABCDEF''"
  by (simp add: upper_latin1_def)

lemma hex_small_list: "list_all (\<lambda>c. (of_char c :: 16 word) < 0x100) ''0123456789abcdef''"
  by simp

lemma hex_digit_small: "(of_char (hex_digit n) :: 16 word) < 0x100"
proof -
  have "hex_digit n \<in> set ''0123456789abcdef''"
    unfolding hex_digit_def by (rule nth_mem) simp
  with hex_small_list show ?thesis unfolding list_all_iff by blast
qed

lemma nth_map_eq:
  "map f xs = map g ys \<Longrightarrow> i < length xs \<Longrightarrow> f (xs ! i) = g (ys ! i)"
  by (metis length_map nth_map)

lemma hex_digit_upper: "upper_latin1 (of_char (hex_digit n)) = [code_digit n]"
  unfolding hex_digit_def code_digit_def
  by (rule nth_map_eq [OF hex_upper_map]) simp

lemma gen_code_digits:
  "gen_code U (a, b, c)
   = [code_digit (unat a div 16), code_digit (unat a mod 16),
      code_digit (unat b div 16), code_digit (unat b mod 16),
      code_digit (unat c div 16), code_digit (unat c mod 16)]"
  by (simp add: gen_code_def toUpperCase_def units_def hex_of_bytes_def hex_byte_def
      hex_digit_small hex_digit_upper)

lemma normalized_gen_code: "normalized U (gen_code U r) = gen_code U r"
proof -
  obtain a b c where r: "r = (a, b, c)" by (cases r)
  show ?thesis
    by (simp add: r gen_code_digits normalized_def trim_def toUpperCase_def code_digit_facts)
qed

lemma code_digit_distinct: "distinct (map of_char ''0123456789ABCDEF'' :: 16 word list)"
  by simp

lemma nth_map_inj:
  "distinct (map f xs) \<Longrightarrow> a < length xs \<Longrightarrow> b < length xs \<Longrightarrow> f (xs ! a) = f (xs ! b)
   \<Longrightarrow> a = b"
  by (metis length_map nth_eq_iff_index_eq nth_map)

lemma code_digit_inj:
  assumes "a < 16" and "b < 16" and "code_digit a = code_digit b"
  shows "a = b"
proof (rule nth_map_inj [OF code_digit_distinct])
  show "a < length ''0123456789ABCDEF''" using assms(1) by simp
  show "b < length ''0123456789ABCDEF''" using assms(2) by simp
  show "(of_char (''0123456789ABCDEF'' ! a) :: 16 word) = of_char (''0123456789ABCDEF'' ! b)"
    using assms by (simp only: code_digit_def mod_less)
qed

lemma byte_digits_inj:
  assumes "code_digit (unat a div 16) = code_digit (unat b div 16)"
    and "code_digit (unat a mod 16) = code_digit (unat b mod 16)"
  shows "a = (b :: 8 word)"
proof -
  have ua: "unat a < 256" and ub: "unat b < 256"
    using unsigned_less [of a] unsigned_less [of b] by simp_all
  have "unat a div 16 = unat b div 16"
    using assms(1) ua ub by (intro code_digit_inj) simp_all
  moreover have "unat a mod 16 = unat b mod 16"
    using assms(2) by (intro code_digit_inj) simp_all
  ultimately have "unat a = unat b"
    by (metis div_mult_mod_eq)
  then show ?thesis by (simp add: word_unat_eq_iff)
qed

lemma gen_code_inj:
  assumes eq: "gen_code U r = gen_code U r'"
  shows "r = r'"
proof -
  obtain a b c where r: "r = (a, b, c)" by (cases r)
  obtain a' b' c' where r': "r' = (a', b', c')" by (cases r')
  from eq show ?thesis
    by (simp add: r r' gen_code_digits byte_digits_inj)
qed

lemma example_code: "gen_code U (0xA3, 0xB9, 0xC4) = units ''A3B9C4''"
  by (simp add: gen_code_digits code_digit_def units_def)

lemma example_normalized_lower: "normalized U (units ''a3b9c4'') = units ''A3B9C4''"
  by (simp add: units_def normalized_def trim_def is_space_def toUpperCase_def upper_latin1_def)

lemma example_normalized_upper: "normalized U (units ''A3B9C4'') = units ''A3B9C4''"
  by (simp add: units_def normalized_def trim_def is_space_def toUpperCase_def upper_latin1_def)

lemma example_normalized_padded:
  "normalized U (0x00A0 # units ''a3b9c4'' @ [0x2003]) = units ''A3B9C4''"
  by (simp add: units_def normalized_def trim_def is_space_def toUpperCase_def upper_latin1_def)

lemma example_normalized_message: "normalized U padded_message = units ''A3B9C4''"
  by (simp add: padded_message_def example_normalized_padded)

lemma example_other_code: "gen_code U (0x00, 0x11, 0x22) = units ''001122''"
  by (simp add: gen_code_digits code_digit_def units_def)

section \<open>Lemmas on the event loop\<close>

lemma run_snoc:
  "run U sha256 hmac_sha256 BOT_TOKEN (es @ [ev]) s
   = exec U sha256 hmac_sha256 BOT_TOKEN ev (run U sha256 hmac_sha256 BOT_TOKEN es s)"
  by (simp add: run_def)

lemma run_timers_apply:
  "run_timers now ts m c = (if \<exists>due. (due, c) \<in> set ts \<and> due \<le> now then None else m c)"
  by (induction ts arbitrary: m) (auto split: if_splits)

lemma fresh_initial: "initial s \<Longrightarrow> fresh s"
  by (simp add: initial_def fresh_def)

lemma fresh_advance:
  assumes "fresh s"
  shows "fresh (advance t s)"
proof -
  let ?now = "max (clock s) t"
  have cover: "\<And>c e. linkingCodes s c = Some e \<Longrightarrow> (timestamp e + ttl_ms, c) \<in> set (timers s)"
    using assms unfolding fresh_def by blast
  have "(timestamp e + ttl_ms, c) \<in> set (filter (\<lambda>(due, c). ?now < due) (timers s))"
    if live: "run_timers ?now (timers s) (linkingCodes s) c = Some e" for c e
  proof -
    from live have none_due: "\<not> (\<exists>due. (due, c) \<in> set (timers s) \<and> due \<le> ?now)"
      and old: "linkingCodes s c = Some e"
      by (simp_all add: run_timers_apply split: if_splits)
    from cover [OF old] none_due have "?now < timestamp e + ttl_ms"
      by (meson not_le)
    with cover [OF old] show ?thesis by simp
  qed
  moreover have "\<forall>(due, c) \<in> set (filter (\<lambda>(due, c). ?now < due) (timers s)). ?now < due"
    by auto
  ultimately show ?thesis
    unfolding fresh_def advance_def Let_def by simp
qed

lemma fresh_link_initiate: "fresh s \<Longrightarrow> fresh (snd (link_initiate U botname uid resp r s))"
  unfolding fresh_def link_initiate_def Let_def
  by (auto simp: ttl_ms_def split: if_splits)

lemma fresh_text_resume:
  "fresh s \<Longrightarrow> fresh (snd (text_resume p err (s\<lparr>db := table, inflight := fl\<rparr>)))"
  unfolding fresh_def text_resume_def
  by (auto split: option.splits if_splits)

lemma fresh_exec:
  assumes "fresh s"
  shows "fresh (exec U sha256 hmac_sha256 BOT_TOKEN ev s)"
proof (cases ev)
  case (Advance t)
  with assms show ?thesis by (simp add: exec_def fresh_advance)
next
  case (LinkInitiate botname uid resp r)
  with assms show ?thesis by (simp add: exec_def fresh_link_initiate)
next
  case (TextBegin msg chat)
  with assms show ?thesis
    by (auto simp: exec_def fresh_def split: begin_result.splits)
next
  case (TextResume i fault)
  with assms show ?thesis
    by (auto simp: exec_def Let_def fresh_text_resume split: prod.splits)
next
  case (TelegramAuth userData session_user fault)
  with assms show ?thesis
    by (auto simp: exec_def fresh_def)
qed

lemma fresh_run: "fresh s \<Longrightarrow> fresh (run U sha256 hmac_sha256 BOT_TOKEN es s)"
  unfolding run_def by (induction es arbitrary: s) (simp_all add: fresh_exec)

lemma live_is_young:
  "fresh s \<Longrightarrow> linkingCodes s c = Some e \<Longrightarrow> clock s < timestamp e + ttl_ms"
  unfolding fresh_def by fastforce

lemma witnessed_snoc:
  "witnessed U sha256 hmac_sha256 BOT_TOKEN s0 es uid chat
   \<Longrightarrow> witnessed U sha256 hmac_sha256 BOT_TOKEN s0 (es @ [ev]) uid chat"
  unfolding witnessed_def by (metis append_Cons append_assoc)

lemma witnessed_last:
  "proves U sha256 hmac_sha256 BOT_TOKEN (run U sha256 hmac_sha256 BOT_TOKEN es s0) ev uid chat
   \<Longrightarrow> witnessed U sha256 hmac_sha256 BOT_TOKEN s0 (es @ [ev]) uid chat"
  unfolding witnessed_def by blast

lemma db_advance: "db (advance t s) = db s"
  by (simp add: advance_def Let_def)

lemma inflight_advance: "inflight (advance t s) = inflight s"
  by (simp add: advance_def Let_def)

lemma db_link_initiate: "db (snd (link_initiate U b u resp r s)) = db s"
  by (simp add: link_initiate_def Let_def)

lemma inflight_link_initiate: "inflight (snd (link_initiate U b u resp r s)) = inflight s"
  by (simp add: link_initiate_def Let_def)

lemma telegram_auth_writes:
  assumes "snd (telegram_auth sha256 hmac_sha256 BOT_TOKEN userData session_user fault table) uid
           = Some l"
  shows "table uid = Some l
         \<or> (validateTelegramHash sha256 hmac_sha256 BOT_TOKEN userData
            \<and> property userData ''id'' = Some (telegram_chat_id l) \<and> session_user = Some uid)"
  using assms
  by (auto simp: telegram_auth_def db_upsert_def split: if_splits option.splits)

lemma remove_nth_subset: "set (remove_nth i xs) \<subseteq> set xs"
  by (auto simp: remove_nth_def dest: in_set_takeD in_set_dropD)

lemma authentic_snoc:
  assumes a: "authentic U sha256 hmac_sha256 BOT_TOKEN s0 es"
  shows "authentic U sha256 hmac_sha256 BOT_TOKEN s0 (es @ [ev])"
proof -
  let ?s = "run U sha256 hmac_sha256 BOT_TOKEN es s0"
  let ?W = "witnessed U sha256 hmac_sha256 BOT_TOKEN s0"
  from a
  have old_db: "\<And>uid l. db ?s uid = Some l
                  \<Longrightarrow> db s0 uid = Some l \<or> ?W es uid (telegram_chat_id l)"
    and old_fl: "\<And>p. p \<in> set (inflight ?s) \<Longrightarrow> ?W es (p_userId p) (p_telegramChatId p)"
    unfolding authentic_def Let_def by blast+
  note up = witnessed_snoc [of U sha256 hmac_sha256 BOT_TOKEN s0 es _ _ ev]
  have keep_db: "db s0 uid = Some l \<or> ?W (es @ [ev]) uid (telegram_chat_id l)"
    if "db ?s uid = Some l" for uid l
    using old_db [OF that] up by blast
  have keep_fl: "?W (es @ [ev]) (p_userId p) (p_telegramChatId p)"
    if "p \<in> set (inflight ?s)" for p
    using old_fl [OF that] up by blast
  have goal_db: "db s0 uid = Some l \<or> ?W (es @ [ev]) uid (telegram_chat_id l)"
    if new: "db (exec U sha256 hmac_sha256 BOT_TOKEN ev ?s) uid = Some l" for uid l
  proof (cases ev)
    case (Advance t)
    with new have "db ?s uid = Some l" by (simp add: exec_def db_advance)
    then show ?thesis by (rule keep_db)
  next
    case (LinkInitiate b u resp r)
    with new have "db ?s uid = Some l" by (simp add: exec_def db_link_initiate)
    then show ?thesis by (rule keep_db)
  next
    case (TextBegin msg chat)
    with new have "db ?s uid = Some l"
      by (simp add: exec_def split: begin_result.splits)
    then show ?thesis by (rule keep_db)
  next
    case (TextResume i fault)
    show ?thesis
    proof (cases "i < length (inflight ?s) \<and> fault = None \<and> uid = p_userId (inflight ?s ! i)")
      case True
      then have mem: "inflight ?s ! i \<in> set (inflight ?s)" by simp
      from new TextResume True
      have "telegram_chat_id l = p_telegramChatId (inflight ?s ! i)"
        by (auto simp: exec_def Let_def db_upsert_def upsert_of_def text_resume_def)
      with keep_fl [OF mem] True show ?thesis by simp
    next
      case False
      with new TextResume have "db ?s uid = Some l"
        by (auto simp: exec_def Let_def db_upsert_def upsert_of_def text_resume_def
                 split: if_splits option.splits)
      then show ?thesis by (rule keep_db)
    qed
  next
    case (TelegramAuth userData session_user fault)
    with new
    have "snd (telegram_auth sha256 hmac_sha256 BOT_TOKEN userData session_user fault (db ?s)) uid
          = Some l"
      by (simp add: exec_def)
    from telegram_auth_writes [OF this] show ?thesis
    proof
      assume "db ?s uid = Some l"
      then show ?thesis by (rule keep_db)
    next
      assume "validateTelegramHash sha256 hmac_sha256 BOT_TOKEN userData
            \<and> property userData ''id'' = Some (telegram_chat_id l) \<and> session_user = Some uid"
      then have "proves U sha256 hmac_sha256 BOT_TOKEN ?s ev uid (telegram_chat_id l)"
        using TelegramAuth by (simp add: proves_def)
      then show ?thesis using witnessed_last by blast
    qed
  qed
  have goal_fl: "?W (es @ [ev]) (p_userId p) (p_telegramChatId p)"
    if new: "p \<in> set (inflight (exec U sha256 hmac_sha256 BOT_TOKEN ev ?s))" for p
  proof (cases ev)
    case (Advance t)
    with new have "p \<in> set (inflight ?s)" by (simp add: exec_def inflight_advance)
    then show ?thesis by (rule keep_fl)
  next
    case (LinkInitiate b u resp r)
    with new have "p \<in> set (inflight ?s)" by (simp add: exec_def inflight_link_initiate)
    then show ?thesis by (rule keep_fl)
  next
    case (TextBegin msg chat)
    show ?thesis
    proof (cases "p \<in> set (inflight ?s)")
      case True
      then show ?thesis by (rule keep_fl)
    next
      case False
      with new TextBegin
      have "proves U sha256 hmac_sha256 BOT_TOKEN ?s ev (p_userId p) (p_telegramChatId p)"
        by (auto simp: exec_def proves_def text_begin_def Let_def
                 split: begin_result.splits option.splits)
      then show ?thesis using witnessed_last by blast
    qed
  next
    case (TextResume i fault)
    with new have "p \<in> set (inflight ?s)"
      using remove_nth_subset [of i "inflight ?s"]
      by (auto simp: exec_def Let_def text_resume_def split: if_splits option.splits prod.splits)
    then show ?thesis by (rule keep_fl)
  next
    case (TelegramAuth userData session_user fault)
    with new have "p \<in> set (inflight ?s)" by (simp add: exec_def)
    then show ?thesis by (rule keep_fl)
  qed
  show ?thesis
    unfolding authentic_def Let_def run_snoc using goal_db goal_fl by blast
qed

lemma authentic_run:
  "inflight s0 = [] \<Longrightarrow> authentic U sha256 hmac_sha256 BOT_TOKEN s0 es"
proof (induction es rule: rev_induct)
  case Nil
  then show ?case by (simp add: authentic_def run_def)
next
  case (snoc ev es)
  then show ?case by (simp add: authentic_snoc)
qed

lemma absent_exec:
  assumes "linkingCodes s c = None" and "\<not> issues U c ev"
  shows "linkingCodes (exec U sha256 hmac_sha256 BOT_TOKEN ev s) c = None"
proof (cases ev)
  case (Advance t)
  with assms show ?thesis by (simp add: exec_def advance_def Let_def run_timers_apply)
next
  case (LinkInitiate botname uid resp r)
  with assms show ?thesis
    by (auto simp: exec_def issues_def link_initiate_def Let_def)
next
  case (TextBegin msg chat)
  with assms show ?thesis by (simp add: exec_def split: begin_result.splits)
next
  case (TextResume i fault)
  with assms show ?thesis
    by (auto simp: exec_def Let_def text_resume_def split: prod.splits option.splits)
next
  case (TelegramAuth userData session_user fault)
  with assms show ?thesis by (simp add: exec_def)
qed

lemma absent_run:
  "linkingCodes s c = None \<Longrightarrow> list_all (\<lambda>ev. \<not> issues U c ev) es
   \<Longrightarrow> linkingCodes (run U sha256 hmac_sha256 BOT_TOKEN es s) c = None"
  unfolding run_def by (induction es arbitrary: s) (simp_all add: absent_exec)

lemma untouched_exec:
  assumes "\<not> touches U c ev s"
  shows "linkingCodes (exec U sha256 hmac_sha256 BOT_TOKEN ev s) c = linkingCodes s c"
proof (cases ev)
  case (Advance t)
  with assms have "\<not> (\<exists>due. (due, c) \<in> set (timers s) \<and> due \<le> max (clock s) t)"
    by (auto simp: touches_def list_ex_iff)
  then have "run_timers (max (clock s) t) (timers s) (linkingCodes s) c = linkingCodes s c"
    by (simp only: run_timers_apply if_False)
  with Advance show ?thesis by (simp add: exec_def advance_def Let_def)
next
  case (LinkInitiate botname uid resp r)
  with assms show ?thesis
    by (auto simp: exec_def touches_def issues_def link_initiate_def Let_def)
next
  case (TextBegin msg chat)
  then show ?thesis by (simp add: exec_def split: begin_result.splits)
next
  case (TextResume i fault)
  with assms show ?thesis
    by (auto simp: exec_def touches_def Let_def text_resume_def db_upsert_def
             split: prod.splits option.splits)
next
  case (TelegramAuth userData session_user fault)
  then show ?thesis by (simp add: exec_def)
qed

lemma untouched_run:
  "untouched U sha256 hmac_sha256 BOT_TOKEN c es s
   \<Longrightarrow> linkingCodes (run U sha256 hmac_sha256 BOT_TOKEN es s) c = linkingCodes s c"
  unfolding run_def by (induction es arbitrary: s) (simp_all add: untouched_exec)

lemma example_initiate:
  "snd (link_initiate U None ''user-42'' not_found (0xA3, 0xB9, 0xC4) start_state) = pairing_state"
  by (simp add: link_initiate_def getTelegramChatId_def not_found_def falsy_def example_code
      start_state_def pairing_state_def ttl_ms_def Let_def)

lemma example_live:
  "linkingCodes pairing_state (units ''A3B9C4'') = Some \<lparr>userId = ''user-42'', timestamp = 0\<rparr>"
  by (simp add: pairing_state_def)

lemma example_redeem:
  "on_text U None (units ''a3b9c4'') 998877 pairing_state
   = (Success, pairing_state\<lparr>db := linked_table, linkingCodes := Map.empty\<rparr>)"
  by (simp add: on_text_def text_begin_def example_normalized_lower example_chat example_live
      text_resume_def db_upsert_def upsert_of_def linked_table_def)
     (simp add: pairing_state_def)

lemma anonymous_payload_valid:
  "validateTelegramHash sha256 hmac_sha256 (Some ''T'') (anonymous_payload sha256 hmac_sha256)"
  by (simp add: validateTelegramHash_def checkString_def object_keys_def property_def
      template_def anonymous_payload_def)

section \<open>The claims\<close>

text \<open>
  C1 (as amended). For every widget payload \<open>P\<close> and every non-empty secret \<open>S\<close>,
  \<open>verify(P, S)\<close> is true if and only if \<open>P.hash\<close> equals the lowercase-hex
  HMAC-SHA256, keyed with the raw SHA256 digest of \<open>S\<close>, of the check-string built by
  rendering every field of \<open>P\<close> except \<open>hash\<close> as \<open>key=value\<close>, sorting those strings
  ascending and joining them with line feeds; the comparison is an exact match of
  strings. (A payload without \<open>hash\<close> is never valid.)
\<close>

theorem validateTelegramHash_iff_hmac:
  assumes "well_formed P" and "S \<noteq> []"
  shows "validateTelegramHash sha256 hmac_sha256 (Some S) P
         = (property P ''hash''
            = Some (hex_of_bytes (hmac_sha256 (sha256 S) (spec_check_string P))))"
  using assms by (auto simp: validateTelegramHash_def Let_def checkString_spec)

theorem validateTelegramHash_iff_hmac_witness:
  "\<forall>sha256 hmac_sha256.
     well_formed (signed_payload sha256 hmac_sha256) \<and> ''T'' \<noteq> [] \<and>
     spec_check_string (signed_payload sha256 hmac_sha256)
       = ''first_name=Bo'' @ [CHR 0x0A] @ ''id=5'' \<and>
     validateTelegramHash sha256 hmac_sha256 (Some ''T'') (signed_payload sha256 hmac_sha256)
       = (property (signed_payload sha256 hmac_sha256) ''hash''
          = Some (hex_of_bytes (hmac_sha256 (sha256 ''T'')
                    (spec_check_string (signed_payload sha256 hmac_sha256))))) \<and>
     validateTelegramHash sha256 hmac_sha256 (Some ''T'') (signed_payload sha256 hmac_sha256)"
proof (intro allI)
  fix sha256 :: sha256_fn and hmac_sha256 :: hmac_fn
  let ?P = "signed_payload sha256 hmac_sha256"
  have wf: "well_formed ?P" by (rule signed_payload_well_formed)
  have ne: "''T'' \<noteq> []" by simp
  note iff = validateTelegramHash_iff_hmac [OF wf ne, of sha256 hmac_sha256]
  show "well_formed ?P \<and> ''T'' \<noteq> [] \<and>
     spec_check_string ?P = ''first_name=Bo'' @ [CHR 0x0A] @ ''id=5'' \<and>
     validateTelegramHash sha256 hmac_sha256 (Some ''T'') ?P
       = (property ?P ''hash''
          = Some (hex_of_bytes (hmac_sha256 (sha256 ''T'') (spec_check_string ?P)))) \<and>
     validateTelegramHash sha256 hmac_sha256 (Some ''T'') ?P"
    using wf ne iff signed_payload_check_string [of sha256 hmac_sha256]
      signed_payload_valid [of sha256 hmac_sha256]
    by blast
qed

text \<open>
  C1 as stated fails for the empty secret: the payload whose \<open>hash\<close> is the HMAC, keyed
  with the digest of the empty string, of its (empty) check-string is refused, whatever
  the two digest functions are.
\<close>

theorem validateTelegramHash_empty_secret_counterexample:
  "\<forall>sha256 hmac_sha256.
     well_formed [(''hash'', hex_of_bytes (hmac_sha256 (sha256 []) []))] \<and>
     property [(''hash'', hex_of_bytes (hmac_sha256 (sha256 []) []))] ''hash''
       = Some (hex_of_bytes (hmac_sha256 (sha256 [])
           (spec_check_string [(''hash'', hex_of_bytes (hmac_sha256 (sha256 []) []))]))) \<and>
     validateTelegramHash sha256 hmac_sha256 (Some [])
       [(''hash'', hex_of_bytes (hmac_sha256 (sha256 []) []))] = False"
  by (simp add: well_formed_def property_def spec_check_string_def validateTelegramHash_def)

text \<open>
  C5. For every payload, if the bot secret is empty or unset then \<open>verify\<close> returns
  false; the answer is the same for every pair of digest functions, none of which is
  applied.
\<close>

theorem validateTelegramHash_fails_closed:
  "falsy BOT_TOKEN \<Longrightarrow> validateTelegramHash sha256 hmac_sha256 BOT_TOKEN P = False"
  by (cases BOT_TOKEN) (simp_all add: falsy_def validateTelegramHash_def)

theorem validateTelegramHash_fails_closed_witness:
  "\<forall>sha256 hmac_sha256.
     falsy None \<and> falsy (Some []) \<and>
     validateTelegramHash sha256 hmac_sha256 None (signed_payload sha256 hmac_sha256) = False \<and>
     validateTelegramHash sha256 hmac_sha256 (Some []) (signed_payload sha256 hmac_sha256) = False"
proof (intro allI)
  fix sha256 :: sha256_fn and hmac_sha256 :: hmac_fn
  let ?P = "signed_payload sha256 hmac_sha256"
  have a: "falsy None" and b: "falsy (Some [])" by (simp_all add: falsy_def)
  show "falsy None \<and> falsy (Some []) \<and>
     validateTelegramHash sha256 hmac_sha256 None ?P = False \<and>
     validateTelegramHash sha256 hmac_sha256 (Some []) ?P = False"
    using a b validateTelegramHash_fails_closed [OF a, of sha256 hmac_sha256 ?P]
      validateTelegramHash_fails_closed [OF b, of sha256 hmac_sha256 ?P]
    by blast
qed

text \<open>
  C8 (as amended). For every session user id, \<open>resolve\<close> returns the linked chat id when
  a record exists and \<open>null\<close> when none exists, logging nothing in either case
  (not-found is a normal outcome); any other failure of the Credential Store is written
  to the server's log and returns the same \<open>null\<close>: the caller receives no error.
\<close>

theorem resolve_outcomes:
  "(table uid = Some l \<longrightarrow> resolve None table uid = (False, Some (telegram_chat_id l))) \<and>
   (table uid = None \<longrightarrow> resolve None table uid = (False, None)) \<and>
   resolve (Some e) table uid = (code e \<noteq> ''PGRST116'', None)"
  by (simp add: resolve_def getTelegramChatId_def db_select_single_def)

theorem resolve_outcomes_witness:
  "linked_table ''user-42'' = Some \<lparr>telegram_chat_id = ''998877'', telegram_username = None\<rparr> \<and>
   resolve None linked_table ''user-42'' = (False, Some ''998877'') \<and>
   linked_table ''user-7'' = None \<and>
   resolve None linked_table ''user-7'' = (False, None) \<and>
   resolve (Some timed_out) linked_table ''user-42'' = (True, None)"
proof -
  have a: "linked_table ''user-42''
           = Some \<lparr>telegram_chat_id = ''998877'', telegram_username = None\<rparr>"
    and b: "linked_table ''user-7'' = None"
    by (simp_all add: linked_table_def)
  have c: "code timed_out \<noteq> ''PGRST116''" by (simp add: timed_out_def)
  show ?thesis
    using a b c
      resolve_outcomes [of linked_table "''user-42''"
        "\<lparr>telegram_chat_id = ''998877'', telegram_username = None\<rparr>" timed_out]
      resolve_outcomes [of linked_table "''user-7''" _ timed_out]
    by simp
qed

text \<open>
  C8 as stated fails: for a linked user whose lookup times out, the caller of
  \<open>resolve\<close> receives the very value it receives for a user with no record.
\<close>

theorem resolve_failure_counterexample:
  "snd (resolve (Some timed_out) linked_table ''user-42'') = None \<and>
   snd (resolve None Map.empty ''user-42'') = None \<and>
   linked_table ''user-42'' = Some \<lparr>telegram_chat_id = ''998877'', telegram_username = None\<rparr>"
  by (simp add: resolve_def getTelegramChatId_def db_select_single_def linked_table_def)

text \<open>
  C10 (as amended). In the widget callback, once the hash check has passed on a callback
  that carries its \<open>id\<close>, the user to link is the one of the server's own session: when
  that session is absent the handler redirects with \<open>no_active_supabase_session\<close> and
  the table is as before; when it is present the row written is keyed by the session's
  user; and no row of any other user changes, whatever the request holds. On a validly
  signed callback without \<open>id\<close> the handler throws before it reads the session, and the
  table is as before.
\<close>

theorem telegram_auth_session:
  assumes "validateTelegramHash sha256 hmac_sha256 BOT_TOKEN userData"
  shows "(property userData ''id'' = None \<longrightarrow>
            telegram_auth sha256 hmac_sha256 BOT_TOKEN userData session_user fault table
              = (TypeError, table)) \<and>
         (\<forall>chat. property userData ''id'' = Some chat \<longrightarrow>
            (falsy session_user \<longrightarrow>
               telegram_auth sha256 hmac_sha256 BOT_TOKEN userData session_user fault table
                 = (RedirectError ''no_active_supabase_session'', table)) \<and>
            (\<forall>uid. session_user = Some uid \<and> uid \<noteq> [] \<longrightarrow>
               telegram_auth sha256 hmac_sha256 BOT_TOKEN userData session_user None table
                 = (RedirectHome,
                    table(uid \<mapsto> \<lparr>telegram_chat_id = chat,
                                   telegram_username =
                                     (if falsy (property userData ''username'') then None
                                      else property userData ''username'')\<rparr>)))) \<and>
         (\<forall>u. session_user \<noteq> Some u \<longrightarrow>
            snd (telegram_auth sha256 hmac_sha256 BOT_TOKEN userData session_user fault table) u
              = table u)"
  using assms
  by (auto simp: telegram_auth_def falsy_def db_upsert_def split: option.splits)

theorem telegram_auth_session_witness:
  "\<forall>sha256 hmac_sha256.
     validateTelegramHash sha256 hmac_sha256 (Some ''T'') (signed_payload sha256 hmac_sha256) \<and>
     property (signed_payload sha256 hmac_sha256) ''id'' = Some ''5'' \<and>
     falsy None \<and>
     telegram_auth sha256 hmac_sha256 (Some ''T'') (signed_payload sha256 hmac_sha256)
         None None linked_table
       = (RedirectError ''no_active_supabase_session'', linked_table) \<and>
     telegram_auth sha256 hmac_sha256 (Some ''T'') (signed_payload sha256 hmac_sha256)
         (Some ''user-7'') None linked_table
       = (RedirectHome,
          linked_table(''user-7'' \<mapsto> \<lparr>telegram_chat_id = ''5'', telegram_username = None\<rparr>)) \<and>
     snd (telegram_auth sha256 hmac_sha256 (Some ''T'') (signed_payload sha256 hmac_sha256)
           (Some ''user-7'') None linked_table) ''user-42'' = linked_table ''user-42'' \<and>
     validateTelegramHash sha256 hmac_sha256 (Some ''T'') (anonymous_payload sha256 hmac_sha256) \<and>
     property (anonymous_payload sha256 hmac_sha256) ''id'' = None \<and>
     telegram_auth sha256 hmac_sha256 (Some ''T'') (anonymous_payload sha256 hmac_sha256)
         (Some ''user-7'') None linked_table = (TypeError, linked_table)"
proof (intro allI)
  fix sha256 :: sha256_fn and hmac_sha256 :: hmac_fn
  let ?P = "signed_payload sha256 hmac_sha256"
  let ?Q = "anonymous_payload sha256 hmac_sha256"
  have v: "validateTelegramHash sha256 hmac_sha256 (Some ''T'') ?P"
    by (rule signed_payload_valid)
  have w: "validateTelegramHash sha256 hmac_sha256 (Some ''T'') ?Q"
    by (rule anonymous_payload_valid)
  have i: "property ?P ''id'' = Some ''5''"
    by (simp add: property_def signed_payload_def)
  have j: "property ?Q ''id'' = None"
    by (simp add: property_def anonymous_payload_def)
  have f: "falsy None" by (simp add: falsy_def)
  have u: "falsy (property ?P ''username'')"
    by (simp add: property_def signed_payload_def falsy_def)
  show "validateTelegramHash sha256 hmac_sha256 (Some ''T'') ?P \<and>
     property ?P ''id'' = Some ''5'' \<and>
     falsy None \<and>
     telegram_auth sha256 hmac_sha256 (Some ''T'') ?P None None linked_table
       = (RedirectError ''no_active_supabase_session'', linked_table) \<and>
     telegram_auth sha256 hmac_sha256 (Some ''T'') ?P (Some ''user-7'') None linked_table
       = (RedirectHome,
          linked_table(''user-7'' \<mapsto> \<lparr>telegram_chat_id = ''5'', telegram_username = None\<rparr>)) \<and>
     snd (telegram_auth sha256 hmac_sha256 (Some ''T'') ?P (Some ''user-7'') None linked_table)
       ''user-42'' = linked_table ''user-42'' \<and>
     validateTelegramHash sha256 hmac_sha256 (Some ''T'') ?Q \<and>
     property ?Q ''id'' = None \<and>
     telegram_auth sha256 hmac_sha256 (Some ''T'') ?Q (Some ''user-7'') None linked_table
       = (TypeError, linked_table)"
    using v w i j f u
      telegram_auth_session [OF v, of None None linked_table]
      telegram_auth_session [OF v, of "Some ''user-7''" None linked_table]
      telegram_auth_session [OF w, of "Some ''user-7''" None linked_table]
    by simp
qed

text \<open>
  C10 as stated fails on a validly signed callback that carries no \<open>id\<close>: with the
  server's session absent the handler does not redirect with
  \<open>no_active_supabase_session\<close>; \<^verbatim>\<open>userData.id.toString()\<close> throws first.
\<close>

theorem telegram_auth_no_id_counterexample:
  "\<forall>sha256 hmac_sha256.
     validateTelegramHash sha256 hmac_sha256 (Some ''T'') (anonymous_payload sha256 hmac_sha256) \<and>
     falsy None \<and>
     telegram_auth sha256 hmac_sha256 (Some ''T'') (anonymous_payload sha256 hmac_sha256)
         None None linked_table = (TypeError, linked_table) \<and>
     TypeError \<noteq> RedirectError ''no_active_supabase_session''"
proof (intro allI)
  fix sha256 :: sha256_fn and hmac_sha256 :: hmac_fn
  let ?Q = "anonymous_payload sha256 hmac_sha256"
  have w: "validateTelegramHash sha256 hmac_sha256 (Some ''T'') ?Q"
    by (rule anonymous_payload_valid)
  have j: "property ?Q ''id'' = None"
    by (simp add: property_def anonymous_payload_def)
  have f: "falsy None" by (simp add: falsy_def)
  have t: "telegram_auth sha256 hmac_sha256 (Some ''T'') ?Q None None linked_table
           = (TypeError, linked_table)"
    using w j by (simp add: telegram_auth_def)
  from w f t
  show "validateTelegramHash sha256 hmac_sha256 (Some ''T'') ?Q \<and>
     falsy None \<and>
     telegram_auth sha256 hmac_sha256 (Some ''T'') ?Q None None linked_table
       = (TypeError, linked_table) \<and>
     TypeError \<noteq> RedirectError ''no_active_supabase_session''"
    by simp
qed

text \<open>
  C2. In every state the event loop reaches, a link in the table that was not there at
  the start was written after an event of the run proved it: a widget callback with a
  valid HMAC signature, whose \<open>id\<close> is the chat linked and whose user is the one of the
  server's session, or a text message from the chat linked that presented a code live in
  the registry for the user linked. No run writes a link without one of the two.
\<close>

theorem link_only_after_proof:
  assumes "inflight s0 = []"
    and "db (run U sha256 hmac_sha256 BOT_TOKEN es s0) uid = Some l"
  shows "db s0 uid = Some l
         \<or> (\<exists>pre ev post. es = pre @ ev # post
              \<and> proves U sha256 hmac_sha256 BOT_TOKEN (run U sha256 hmac_sha256 BOT_TOKEN pre s0)
                   ev uid (telegram_chat_id l))"
  using authentic_run [OF assms(1), of U sha256 hmac_sha256 BOT_TOKEN es] assms(2)
  unfolding authentic_def Let_def witnessed_def by blast

theorem link_only_after_proof_witness:
  "\<forall>U sha256 hmac_sha256.
     inflight start_state = [] \<and>
     db (run U sha256 hmac_sha256 None
           [LinkInitiate None ''user-42'' not_found (0xA3, 0xB9, 0xC4),
            TextBegin padded_message 998877, TextResume 0 None] start_state) ''user-42''
       = Some \<lparr>telegram_chat_id = ''998877'', telegram_username = None\<rparr> \<and>
     proves U sha256 hmac_sha256 None
       (run U sha256 hmac_sha256 None
          [LinkInitiate None ''user-42'' not_found (0xA3, 0xB9, 0xC4)] start_state)
       (TextBegin padded_message 998877) ''user-42'' ''998877'' \<and>
     (\<exists>pre ev post.
        [LinkInitiate None ''user-42'' not_found (0xA3, 0xB9, 0xC4),
         TextBegin padded_message 998877, TextResume 0 None] = pre @ ev # post \<and>
        proves U sha256 hmac_sha256 None (run U sha256 hmac_sha256 None pre start_state) ev
          ''user-42'' ''998877'')"
proof (intro allI)
  fix U :: upper_fn and sha256 :: sha256_fn and hmac_sha256 :: hmac_fn
  let ?one = "[LinkInitiate None ''user-42'' not_found (0xA3, 0xB9, 0xC4)]"
  let ?es = "[LinkInitiate None ''user-42'' not_found (0xA3, 0xB9, 0xC4),
              TextBegin padded_message 998877, TextResume 0 None]"
  let ?l = "\<lparr>telegram_chat_id = ''998877'', telegram_username = None\<rparr>"
  have i: "inflight start_state = []" by (simp add: start_state_def)
  have one: "run U sha256 hmac_sha256 None ?one start_state = pairing_state"
    by (simp add: run_def exec_def example_initiate)
  have two: "exec U sha256 hmac_sha256 None (TextBegin padded_message 998877) pairing_state
             = pairing_state\<lparr>inflight := [first_pending]\<rparr>"
    by (simp add: exec_def text_begin_def example_normalized_message example_chat example_live
        first_pending_def)
       (simp add: pairing_state_def)
  have three: "db (exec U sha256 hmac_sha256 None (TextResume 0 None)
                 (pairing_state\<lparr>inflight := [first_pending]\<rparr>)) ''user-42'' = Some ?l"
    by (simp add: exec_def db_upsert_def upsert_of_def text_resume_def first_pending_def
        pairing_state_def)
  have "run U sha256 hmac_sha256 None ?es start_state
        = exec U sha256 hmac_sha256 None (TextResume 0 None)
            (exec U sha256 hmac_sha256 None (TextBegin padded_message 998877)
               (run U sha256 hmac_sha256 None ?one start_state))"
    by (simp add: run_def)
  then have d: "db (run U sha256 hmac_sha256 None ?es start_state) ''user-42'' = Some ?l"
    by (simp only: one two three)
  have p: "proves U sha256 hmac_sha256 None (run U sha256 hmac_sha256 None ?one start_state)
       (TextBegin padded_message 998877) ''user-42'' ''998877''"
    by (simp add: one proves_def example_normalized_message example_live example_chat)
  have e: "db start_state ''user-42'' \<noteq> Some ?l" by (simp add: start_state_def)
  from link_only_after_proof [OF i d] e
  have "\<exists>pre ev post. ?es = pre @ ev # post \<and>
        proves U sha256 hmac_sha256 None (run U sha256 hmac_sha256 None pre start_state) ev
          ''user-42'' ''998877''"
    by simp
  with i d p
  show "inflight start_state = [] \<and>
     db (run U sha256 hmac_sha256 None ?es start_state) ''user-42'' = Some ?l \<and>
     proves U sha256 hmac_sha256 None (run U sha256 hmac_sha256 None ?one start_state)
       (TextBegin padded_message 998877) ''user-42'' ''998877'' \<and>
     (\<exists>pre ev post. ?es = pre @ ev # post \<and>
        proves U sha256 hmac_sha256 None (run U sha256 hmac_sha256 None pre start_state) ev
          ''user-42'' ''998877'')"
    by blast
qed

text \<open>
  C3 (as amended). For every code live in the registry, a redemption of it whose link
  write succeeds returns \<open>Success\<close>, persists the link from the code's owner to the
  chat that sent it (the stored username is kept) and removes the code from the
  registry; after that redemption has finished, and for as long as \<open>initiate\<close> does not
  issue the same code again, every redemption attempt with that code, whatever else the
  event loop has run in between, returns \<open>Unrecognized\<close> and changes nothing.
\<close>

theorem redeem_once:
  assumes "linkingCodes s (normalized U msg) = Some e"
  shows "on_text U None msg chat s
           = (Success,
              s\<lparr>db := (db s)(userId e \<mapsto>
                          \<lparr>telegram_chat_id = number_toString chat,
                           telegram_username =
                             (case db s (userId e) of
                                Some l \<Rightarrow> telegram_username l
                              | None \<Rightarrow> None)\<rparr>),
                linkingCodes := (linkingCodes s)(normalized U msg := None)\<rparr>) \<and>
         (\<forall>es msg' chat' fault'.
            list_all (\<lambda>ev. \<not> issues U (normalized U msg) ev) es
            \<and> normalized U msg' = normalized U msg \<longrightarrow>
            on_text U fault' msg' chat'
                (run U sha256 hmac_sha256 BOT_TOKEN es (snd (on_text U None msg chat s)))
              = (Unrecognized,
                 run U sha256 hmac_sha256 BOT_TOKEN es (snd (on_text U None msg chat s))))"
proof -
  let ?c = "normalized U msg"
  let ?s1 = "snd (on_text U None msg chat s)"
  have first: "on_text U None msg chat s
           = (Success,
              s\<lparr>db := (db s)(userId e \<mapsto>
                          \<lparr>telegram_chat_id = number_toString chat,
                           telegram_username =
                             (case db s (userId e) of
                                Some l \<Rightarrow> telegram_username l
                              | None \<Rightarrow> None)\<rparr>),
                linkingCodes := (linkingCodes s)(?c := None)\<rparr>)"
    using assms
    by (simp add: on_text_def text_begin_def text_resume_def db_upsert_def upsert_of_def Let_def)
  then have gone: "linkingCodes ?s1 ?c = None" by simp
  have later: "on_text U fault' msg' chat' (run U sha256 hmac_sha256 BOT_TOKEN es ?s1)
               = (Unrecognized, run U sha256 hmac_sha256 BOT_TOKEN es ?s1)"
    if "list_all (\<lambda>ev. \<not> issues U ?c ev) es" and "normalized U msg' = ?c"
    for es msg' chat' fault'
  proof -
    have "linkingCodes (run U sha256 hmac_sha256 BOT_TOKEN es ?s1) ?c = None"
      using gone that(1) by (rule absent_run)
    then show ?thesis
      by (simp add: on_text_def text_begin_def that(2))
  qed
  from first later show ?thesis by blast
qed

theorem redeem_once_witness:
  "\<forall>U sha256 hmac_sha256.
     linkingCodes pairing_state (normalized U padded_message)
       = Some \<lparr>userId = ''user-42'', timestamp = 0\<rparr> \<and>
     on_text U None padded_message 998877 pairing_state
       = (Success, pairing_state\<lparr>db := linked_table, linkingCodes := Map.empty\<rparr>) \<and>
     list_all (\<lambda>ev. \<not> issues U (normalized U padded_message) ev)
       [Advance 1000, LinkInitiate None ''user-7'' not_found (0x00, 0x11, 0x22)] \<and>
     normalized U (units ''A3B9C4'') = normalized U padded_message \<and>
     fst (on_text U None (units ''A3B9C4'') 111
            (run U sha256 hmac_sha256 None
               [Advance 1000, LinkInitiate None ''user-7'' not_found (0x00, 0x11, 0x22)]
               (snd (on_text U None padded_message 998877 pairing_state))))
       = Unrecognized"
proof (intro allI)
  fix U :: upper_fn and sha256 :: sha256_fn and hmac_sha256 :: hmac_fn
  let ?es = "[Advance 1000, LinkInitiate None ''user-7'' not_found (0x00, 0x11, 0x22)]"
  have live: "linkingCodes pairing_state (normalized U padded_message)
              = Some \<lparr>userId = ''user-42'', timestamp = 0\<rparr>"
    by (simp add: example_normalized_message example_live)
  have same: "normalized U (units ''A3B9C4'') = normalized U padded_message"
    by (simp add: example_normalized_message example_normalized_upper)
  have other: "gen_code U (0x00, 0x11, 0x22) \<noteq> units ''A3B9C4''"
    by (simp add: gen_code_digits code_digit_def units_def)
  have quiet: "list_all (\<lambda>ev. \<not> issues U (normalized U padded_message) ev) ?es"
    using other by (simp add: issues_def example_normalized_message)
  note t = redeem_once [OF live, of 998877 sha256 hmac_sha256 None]
  from t have a: "on_text U None padded_message 998877 pairing_state
       = (Success, pairing_state\<lparr>db := linked_table, linkingCodes := Map.empty\<rparr>)"
    by (simp add: example_normalized_message example_chat linked_table_def)
       (simp add: pairing_state_def)
  from t quiet same
  have "on_text U None (units ''A3B9C4'') 111
            (run U sha256 hmac_sha256 None ?es
               (snd (on_text U None padded_message 998877 pairing_state)))
        = (Unrecognized,
           run U sha256 hmac_sha256 None ?es
             (snd (on_text U None padded_message 998877 pairing_state)))"
    by blast
  then have b: "fst (on_text U None (units ''A3B9C4'') 111
            (run U sha256 hmac_sha256 None ?es
               (snd (on_text U None padded_message 998877 pairing_state)))) = Unrecognized"
    by simp
  from live a quiet same b
  show "linkingCodes pairing_state (normalized U padded_message)
       = Some \<lparr>userId = ''user-42'', timestamp = 0\<rparr> \<and>
     on_text U None padded_message 998877 pairing_state
       = (Success, pairing_state\<lparr>db := linked_table, linkingCodes := Map.empty\<rparr>) \<and>
     list_all (\<lambda>ev. \<not> issues U (normalized U padded_message) ev) ?es \<and>
     normalized U (units ''A3B9C4'') = normalized U padded_message \<and>
     fst (on_text U None (units ''A3B9C4'') 111
            (run U sha256 hmac_sha256 None ?es
               (snd (on_text U None padded_message 998877 pairing_state))))
       = Unrecognized"
    by blast
qed

text \<open>
  C3 as stated fails three times. A first redemption whose upsert fails does not return
  \<open>Success\<close>. Two messages with the same code, the second handled while the first
  handler awaits its upsert, both find the code live and both end in \<open>Success\<close>; the
  second rewrites the link to its own chat. And after a redemption, once \<open>initiate\<close> has
  drawn the same code for another user, a later attempt with that code ends in
  \<open>Success\<close> again.
\<close>

theorem redeem_first_or_concurrent_counterexample:
  "\<forall>U.
   on_text U (Some timed_out) (units ''A3B9C4'') 998877 pairing_state
     = (PersistenceFailed, pairing_state) \<and>
   text_begin U (units ''A3B9C4'') 998877 pairing_state = Awaiting first_pending \<and>
   text_begin U (units ''A3B9C4'') 111 pairing_state = Awaiting second_pending \<and>
   text_resume first_pending None
       (pairing_state\<lparr>db := snd (db_upsert None (upsert_of first_pending) (db pairing_state))\<rparr>)
     = (Success, pairing_state\<lparr>db := linked_table, linkingCodes := Map.empty\<rparr>) \<and>
   fst (text_resume second_pending None
          (pairing_state\<lparr>db := snd (db_upsert None (upsert_of second_pending) linked_table),
                         linkingCodes := Map.empty\<rparr>)) = Success \<and>
   map_option telegram_chat_id
       (snd (db_upsert None (upsert_of second_pending) linked_table) ''user-42'') = Some ''111'' \<and>
   fst (on_text U None (units ''A3B9C4'') 111
          (snd (link_initiate U None ''user-7'' not_found (0xA3, 0xB9, 0xC4)
                  (pairing_state\<lparr>db := linked_table, linkingCodes := Map.empty\<rparr>)))) = Success"
proof (intro allI)
  fix U :: upper_fn
  have a: "on_text U (Some timed_out) (units ''A3B9C4'') 998877 pairing_state
           = (PersistenceFailed, pairing_state)"
    by (simp add: on_text_def text_begin_def example_normalized_upper example_live
        db_upsert_def text_resume_def)
  have b: "text_begin U (units ''A3B9C4'') 998877 pairing_state = Awaiting first_pending"
    by (simp add: text_begin_def example_normalized_upper example_live example_chat
        first_pending_def)
  have c: "text_begin U (units ''A3B9C4'') 111 pairing_state = Awaiting second_pending"
    by (simp add: text_begin_def example_normalized_upper example_live example_other_chat
        second_pending_def)
  have d: "text_resume first_pending None
       (pairing_state\<lparr>db := snd (db_upsert None (upsert_of first_pending) (db pairing_state))\<rparr>)
     = (Success, pairing_state\<lparr>db := linked_table, linkingCodes := Map.empty\<rparr>)"
    by (simp add: text_resume_def db_upsert_def upsert_of_def first_pending_def linked_table_def)
       (simp add: pairing_state_def)
  have e: "fst (text_resume second_pending None
          (pairing_state\<lparr>db := snd (db_upsert None (upsert_of second_pending) linked_table),
                         linkingCodes := Map.empty\<rparr>)) = Success"
    by (simp add: text_resume_def)
  have f: "map_option telegram_chat_id
       (snd (db_upsert None (upsert_of second_pending) linked_table) ''user-42'') = Some ''111''"
    by (simp add: db_upsert_def upsert_of_def second_pending_def)
  have g: "fst (on_text U None (units ''A3B9C4'') 111
          (snd (link_initiate U None ''user-7'' not_found (0xA3, 0xB9, 0xC4)
                  (pairing_state\<lparr>db := linked_table, linkingCodes := Map.empty\<rparr>)))) = Success"
    by (simp add: link_initiate_def getTelegramChatId_def not_found_def falsy_def example_code
        Let_def on_text_def text_begin_def example_normalized_upper text_resume_def
        db_upsert_def)
  from a b c d e f g
  show "on_text U (Some timed_out) (units ''A3B9C4'') 998877 pairing_state
     = (PersistenceFailed, pairing_state) \<and>
   text_begin U (units ''A3B9C4'') 998877 pairing_state = Awaiting first_pending \<and>
   text_begin U (units ''A3B9C4'') 111 pairing_state = Awaiting second_pending \<and>
   text_resume first_pending None
       (pairing_state\<lparr>db := snd (db_upsert None (upsert_of first_pending) (db pairing_state))\<rparr>)
     = (Success, pairing_state\<lparr>db := linked_table, linkingCodes := Map.empty\<rparr>) \<and>
   fst (text_resume second_pending None
          (pairing_state\<lparr>db := snd (db_upsert None (upsert_of second_pending) linked_table),
                         linkingCodes := Map.empty\<rparr>)) = Success \<and>
   map_option telegram_chat_id
       (snd (db_upsert None (upsert_of second_pending) linked_table) ''user-42'') = Some ''111'' \<and>
   fst (on_text U None (units ''A3B9C4'') 111
          (snd (link_initiate U None ''user-7'' not_found (0xA3, 0xB9, 0xC4)
                  (pairing_state\<lparr>db := linked_table, linkingCodes := Map.empty\<rparr>)))) = Success"
    by blast
qed

text \<open>
  C4. For every live code, if the upsert of the link fails during redemption, the
  handler returns \<open>PersistenceFailed\<close> and leaves the state as it was: the code stays
  live and the registry is unchanged. This holds for the handler resumed after an await
  of any length as well. A redemption that changes the registry at all has written its
  link and returned \<open>Success\<close>.
\<close>

theorem redeem_persistence_failed:
  assumes "linkingCodes s (normalized U msg) = Some e"
  shows "on_text U (Some err) msg chat s = (PersistenceFailed, s) \<and>
         text_resume p (Some err) s' = (PersistenceFailed, s') \<and>
         (\<forall>fault r t. on_text U fault msg chat s = (r, t) \<and> linkingCodes t \<noteq> linkingCodes s \<longrightarrow>
            fault = None \<and> r = Success \<and>
            map_option telegram_chat_id (db t (userId e)) = Some (number_toString chat))"
  using assms
  by (auto simp: on_text_def text_begin_def text_resume_def db_upsert_def upsert_of_def Let_def
           split: option.splits)

theorem redeem_persistence_failed_witness:
  "\<forall>U.
   linkingCodes pairing_state (normalized U padded_message)
     = Some \<lparr>userId = ''user-42'', timestamp = 0\<rparr> \<and>
   on_text U (Some timed_out) padded_message 998877 pairing_state
     = (PersistenceFailed, pairing_state) \<and>
   linkingCodes (snd (on_text U (Some timed_out) padded_message 998877 pairing_state))
       (units ''A3B9C4'')
     = Some \<lparr>userId = ''user-42'', timestamp = 0\<rparr> \<and>
   linkingCodes (snd (on_text U None padded_message 998877 pairing_state))
     \<noteq> linkingCodes pairing_state \<and>
   map_option telegram_chat_id
       (db (snd (on_text U None padded_message 998877 pairing_state)) ''user-42'')
     = Some ''998877''"
proof (intro allI)
  fix U :: upper_fn
  have live: "linkingCodes pairing_state (normalized U padded_message)
              = Some \<lparr>userId = ''user-42'', timestamp = 0\<rparr>"
    by (simp add: example_normalized_message example_live)
  note t = redeem_persistence_failed [OF live, of timed_out 998877 first_pending pairing_state]
  have ok: "on_text U None padded_message 998877 pairing_state
            = (Success, pairing_state\<lparr>db := linked_table, linkingCodes := Map.empty\<rparr>)"
    by (simp add: on_text_def text_begin_def example_normalized_message example_chat
        example_live text_resume_def db_upsert_def upsert_of_def linked_table_def)
       (simp add: pairing_state_def)
  have gone: "linkingCodes (snd (on_text U None padded_message 998877 pairing_state))
              \<noteq> linkingCodes pairing_state"
  proof
    assume "linkingCodes (snd (on_text U None padded_message 998877 pairing_state))
            = linkingCodes pairing_state"
    then have "linkingCodes (snd (on_text U None padded_message 998877 pairing_state))
                 (units ''A3B9C4'')
               = linkingCodes pairing_state (units ''A3B9C4'')"
      by simp
    then show False by (simp add: ok example_live)
  qed
  have "on_text U None padded_message 998877 pairing_state
        = (Success, snd (on_text U None padded_message 998877 pairing_state))"
    by (simp add: ok)
  with t gone
  have w: "map_option telegram_chat_id
          (db (snd (on_text U None padded_message 998877 pairing_state)) ''user-42'')
        = Some (number_toString 998877)"
    by fastforce
  from t have f: "on_text U (Some timed_out) padded_message 998877 pairing_state
                  = (PersistenceFailed, pairing_state)"
    by blast
  from live gone w f
  show "linkingCodes pairing_state (normalized U padded_message)
     = Some \<lparr>userId = ''user-42'', timestamp = 0\<rparr> \<and>
   on_text U (Some timed_out) padded_message 998877 pairing_state
     = (PersistenceFailed, pairing_state) \<and>
   linkingCodes (snd (on_text U (Some timed_out) padded_message 998877 pairing_state))
       (units ''A3B9C4'')
     = Some \<lparr>userId = ''user-42'', timestamp = 0\<rparr> \<and>
   linkingCodes (snd (on_text U None padded_message 998877 pairing_state))
     \<noteq> linkingCodes pairing_state \<and>
   map_option telegram_chat_id
       (db (snd (on_text U None padded_message 998877 pairing_state)) ''user-42'')
     = Some ''998877''"
    by (simp add: example_live example_chat)
qed

text \<open>
  C6 (as amended). For every owner whose persisted link the lookup returns (the lookup
  succeeds and the link's chat id is not empty), \<open>initiate\<close> returns the "already
  linked" result, generates no code and leaves the registry, and all the state,
  unchanged.
\<close>

theorem initiate_already_linked:
  assumes "table uid = Some l" and "telegram_chat_id l \<noteq> []"
  shows "link_initiate U botname uid (db_select_single None table uid) randomBytes s
           = (AlreadyLinked, s)"
  using assms
  by (simp add: link_initiate_def getTelegramChatId_def db_select_single_def falsy_def)

theorem initiate_already_linked_witness:
  "\<forall>U.
   linked_table ''user-42'' = Some \<lparr>telegram_chat_id = ''998877'', telegram_username = None\<rparr> \<and>
   telegram_chat_id \<lparr>telegram_chat_id = ''998877'', telegram_username = None\<rparr> \<noteq> [] \<and>
   link_initiate U None ''user-42'' (db_select_single None linked_table ''user-42'')
       (0xA3, 0xB9, 0xC4) (start_state\<lparr>db := linked_table\<rparr>)
     = (AlreadyLinked, start_state\<lparr>db := linked_table\<rparr>)"
proof (intro allI)
  fix U :: upper_fn
  have a: "linked_table ''user-42''
           = Some \<lparr>telegram_chat_id = ''998877'', telegram_username = None\<rparr>"
    by (simp add: linked_table_def)
  have b: "telegram_chat_id \<lparr>telegram_chat_id = ''998877'', telegram_username = None\<rparr> \<noteq> []"
    by simp
  from a b
    initiate_already_linked [of linked_table "''user-42''"
      "\<lparr>telegram_chat_id = ''998877'', telegram_username = None\<rparr>"
      U None "(0xA3, 0xB9, 0xC4)" "start_state\<lparr>db := linked_table\<rparr>", OF a b]
  show "linked_table ''user-42''
       = Some \<lparr>telegram_chat_id = ''998877'', telegram_username = None\<rparr> \<and>
   telegram_chat_id \<lparr>telegram_chat_id = ''998877'', telegram_username = None\<rparr> \<noteq> [] \<and>
   link_initiate U None ''user-42'' (db_select_single None linked_table ''user-42'')
       (0xA3, 0xB9, 0xC4) (start_state\<lparr>db := linked_table\<rparr>)
     = (AlreadyLinked, start_state\<lparr>db := linked_table\<rparr>)"
    by blast
qed

text \<open>
  C6 as stated fails when the lookup fails: user-42 has a persisted link, the select times
  out, \<open>getTelegramChatId\<close> returns \<open>null\<close>, and \<open>initiate\<close> issues the code A3B9C4
  and registers it. A link whose chat id is the empty string is not taken for a link
  either.
\<close>

theorem initiate_lookup_failed_counterexample:
  "\<forall>U.
   linked_table ''user-42'' = Some \<lparr>telegram_chat_id = ''998877'', telegram_username = None\<rparr> \<and>
   fst (link_initiate U None ''user-42''
          (db_select_single (Some timed_out) linked_table ''user-42'')
          (0xA3, 0xB9, 0xC4) (start_state\<lparr>db := linked_table\<rparr>)) \<noteq> AlreadyLinked \<and>
   issued_code
     (fst (link_initiate U None ''user-42''
             (db_select_single (Some timed_out) linked_table ''user-42'')
             (0xA3, 0xB9, 0xC4) (start_state\<lparr>db := linked_table\<rparr>))) = units ''A3B9C4'' \<and>
   linkingCodes
     (snd (link_initiate U None ''user-42''
             (db_select_single (Some timed_out) linked_table ''user-42'')
             (0xA3, 0xB9, 0xC4) (start_state\<lparr>db := linked_table\<rparr>))) (units ''A3B9C4'')
     = Some \<lparr>userId = ''user-42'', timestamp = 0\<rparr> \<and>
   blank_table ''user-9'' = Some \<lparr>telegram_chat_id = [], telegram_username = None\<rparr> \<and>
   fst (link_initiate U None ''user-9'' (db_select_single None blank_table ''user-9'')
          (0xA3, 0xB9, 0xC4) (start_state\<lparr>db := blank_table\<rparr>)) \<noteq> AlreadyLinked"
  by (simp add: link_initiate_def getTelegramChatId_def db_select_single_def falsy_def
      example_code start_state_def Let_def)
     (simp add: linked_table_def blank_table_def)

text \<open>
  C7. A code issued by \<open>initiate\<close> gets a timer that deletes that code 600 seconds after
  its creation; a redemption does not cancel the timer; the timer, once due, deletes the
  code whatever happened to it (deleting an absent code changes nothing). Hence, in
  every state the event loop reaches from its start, an entry of the registry is younger
  than 600 seconds, and a redemption attempt that is not answered \<open>Unrecognized\<close> has
  matched an entry created less than 600 seconds before: after the time to live of an
  entry has elapsed, no attempt finds it. (Time is the clock of the model: a timer runs
  as soon as the clock reaches its due time.)
\<close>

theorem code_expires:
  assumes "initial s0" and "s = run U sha256 hmac_sha256 BOT_TOKEN es s0"
  shows "(falsy (snd (getTelegramChatId resp)) \<longrightarrow>
            timers (snd (link_initiate U botname uid resp r s))
              = timers s @ [(clock s + 600000, gen_code U r)] \<and>
            linkingCodes (snd (link_initiate U botname uid resp r s)) (gen_code U r)
              = Some \<lparr>userId = uid, timestamp = clock s\<rparr>) \<and>
         timers (snd (on_text U fault msg chat s)) = timers s \<and>
         (\<forall>due c. (due, c) \<in> set (timers s) \<and> due \<le> t \<longrightarrow> linkingCodes (advance t s) c = None) \<and>
         (\<forall>now due c. linkingCodes s c = None \<longrightarrow>
            run_timers now [(due, c)] (linkingCodes s) = linkingCodes s) \<and>
         (\<forall>c e. linkingCodes s c = Some e \<longrightarrow> clock s < timestamp e + 600000) \<and>
         (\<forall>res s'. on_text U fault msg chat s = (res, s') \<and> res \<noteq> Unrecognized \<longrightarrow>
            (\<exists>e. linkingCodes s (normalized U msg) = Some e \<and> clock s < timestamp e + 600000))"
proof -
  have f: "fresh s"
    using assms fresh_run [OF fresh_initial] by simp
  have young: "\<And>c e. linkingCodes s c = Some e \<Longrightarrow> clock s < timestamp e + 600000"
    using live_is_young [OF f] by (simp add: ttl_ms_def)
  have a: "falsy (snd (getTelegramChatId resp)) \<longrightarrow>
            timers (snd (link_initiate U botname uid resp r s))
              = timers s @ [(clock s + 600000, gen_code U r)] \<and>
            linkingCodes (snd (link_initiate U botname uid resp r s)) (gen_code U r)
              = Some \<lparr>userId = uid, timestamp = clock s\<rparr>"
    by (simp add: link_initiate_def Let_def ttl_ms_def)
  have b: "timers (snd (on_text U fault msg chat s)) = timers s"
    by (simp add: on_text_def text_resume_def split: begin_result.splits option.splits prod.splits)
  have c: "\<forall>due c. (due, c) \<in> set (timers s) \<and> due \<le> t \<longrightarrow> linkingCodes (advance t s) c = None"
  proof (intro allI impI)
    fix due c
    assume "(due, c) \<in> set (timers s) \<and> due \<le> t"
    then have "\<exists>d. (d, c) \<in> set (timers s) \<and> d \<le> max (clock s) t"
      by (meson max.coboundedI2)
    then show "linkingCodes (advance t s) c = None"
      by (simp add: advance_def Let_def run_timers_apply)
  qed
  have d: "\<forall>now due c. linkingCodes s c = None \<longrightarrow>
            run_timers now [(due, c)] (linkingCodes s) = linkingCodes s"
    by (auto simp: fun_upd_idem)
  have e: "\<forall>res s'. on_text U fault msg chat s = (res, s') \<and> res \<noteq> Unrecognized \<longrightarrow>
            (\<exists>e. linkingCodes s (normalized U msg) = Some e \<and> clock s < timestamp e + 600000)"
  proof (intro allI impI)
    fix res s'
    assume h: "on_text U fault msg chat s = (res, s') \<and> res \<noteq> Unrecognized"
    then obtain e where "linkingCodes s (normalized U msg) = Some e"
      by (cases "linkingCodes s (normalized U msg)")
         (auto simp: on_text_def text_begin_def Let_def)
    with young show "\<exists>e. linkingCodes s (normalized U msg) = Some e \<and> clock s < timestamp e + 600000"
      by blast
  qed
  from a b c d e young show ?thesis by blast
qed

theorem code_expires_witness:
  "\<forall>U sha256 hmac_sha256.
     initial start_state \<and>
     falsy (snd (getTelegramChatId not_found)) \<and>
     run U sha256 hmac_sha256 None
       [LinkInitiate None ''user-42'' not_found (0xA3, 0xB9, 0xC4)] start_state = pairing_state \<and>
     timers pairing_state = [(600000, units ''A3B9C4'')] \<and>
     fst (on_text U None padded_message 998877 (advance 599999 pairing_state)) = Success \<and>
     linkingCodes (advance 600000 pairing_state) (units ''A3B9C4'') = None \<and>
     on_text U None padded_message 998877
         (run U sha256 hmac_sha256 None
            [LinkInitiate None ''user-42'' not_found (0xA3, 0xB9, 0xC4), Advance 600000]
            start_state)
       = (Unrecognized,
          run U sha256 hmac_sha256 None
            [LinkInitiate None ''user-42'' not_found (0xA3, 0xB9, 0xC4), Advance 600000]
            start_state)"
proof (intro allI)
  fix U :: upper_fn and sha256 :: sha256_fn and hmac_sha256 :: hmac_fn
  let ?one = "[LinkInitiate None ''user-42'' not_found (0xA3, 0xB9, 0xC4)]"
  let ?two = "[LinkInitiate None ''user-42'' not_found (0xA3, 0xB9, 0xC4), Advance 600000]"
  have i: "initial start_state" by (simp add: initial_def start_state_def)
  have n: "falsy (snd (getTelegramChatId not_found))"
    by (simp add: getTelegramChatId_def not_found_def falsy_def)
  have one: "run U sha256 hmac_sha256 None ?one start_state = pairing_state"
    by (simp add: run_def exec_def example_initiate)
  have two: "run U sha256 hmac_sha256 None ?two start_state = advance 600000 pairing_state"
    by (simp add: run_def exec_def example_initiate)
  have tm: "timers pairing_state = [(600000, units ''A3B9C4'')]" by (simp add: pairing_state_def)
  have before: "fst (on_text U None padded_message 998877 (advance 599999 pairing_state)) = Success"
    by (simp add: on_text_def text_begin_def example_normalized_message advance_def Let_def
        pairing_state_def text_resume_def db_upsert_def)
  note t = code_expires [of start_state _ U sha256 hmac_sha256 None ?one not_found None
      "''user-42''" "(0xA3, 0xB9, 0xC4)" None padded_message 998877 600000, OF i refl]
  from t have "linkingCodes (advance 600000 (run U sha256 hmac_sha256 None ?one start_state))
                 (units ''A3B9C4'') = None"
    by (simp add: one tm)
  then have gone: "linkingCodes (advance 600000 pairing_state) (units ''A3B9C4'') = None"
    by (simp add: one)
  have after: "on_text U None padded_message 998877 (run U sha256 hmac_sha256 None ?two start_state)
               = (Unrecognized, run U sha256 hmac_sha256 None ?two start_state)"
    using gone by (simp add: two on_text_def text_begin_def example_normalized_message)
  from i n one tm before gone after
  show "initial start_state \<and>
     falsy (snd (getTelegramChatId not_found)) \<and>
     run U sha256 hmac_sha256 None ?one start_state = pairing_state \<and>
     timers pairing_state = [(600000, units ''A3B9C4'')] \<and>
     fst (on_text U None padded_message 998877 (advance 599999 pairing_state)) = Success \<and>
     linkingCodes (advance 600000 pairing_state) (units ''A3B9C4'') = None \<and>
     on_text U None padded_message 998877 (run U sha256 hmac_sha256 None ?two start_state)
       = (Unrecognized, run U sha256 hmac_sha256 None ?two start_state)"
    by blast
qed

text \<open>
  C9 (as amended). For every unlinked owner, two calls of \<open>initiate\<close> whose random
  draws differ yield two distinct codes; as long as, from its issue on, neither code is
  redeemed, issued again or removed by a timer that has fallen due, both are live in the
  registry for that owner, and each of them redeems successfully when its link write
  succeeds, before or after the other. Equal draws give the same code twice, and the
  second call overwrites the entry of the first.
\<close>

theorem initiate_twice:
  assumes "falsy (snd (getTelegramChatId resp1))" and "falsy (snd (getTelegramChatId resp2))"
    and "s1 = snd (link_initiate U botname uid resp1 r1 s)"
    and "untouched U sha256 hmac_sha256 BOT_TOKEN (gen_code U r1) es1 s1"
    and "t = run U sha256 hmac_sha256 BOT_TOKEN es1 s1"
    and "s2 = snd (link_initiate U botname uid resp2 r2 t)"
    and "untouched U sha256 hmac_sha256 BOT_TOKEN (gen_code U r1) es2 s2"
    and "untouched U sha256 hmac_sha256 BOT_TOKEN (gen_code U r2) es2 s2"
    and "sf = run U sha256 hmac_sha256 BOT_TOKEN es2 s2"
  shows "issued_code (fst (link_initiate U botname uid resp1 r1 s)) = gen_code U r1 \<and>
         issued_code (fst (link_initiate U botname uid resp2 r2 t)) = gen_code U r2 \<and>
         (r1 = r2 \<longrightarrow>
            linkingCodes s2
              = (linkingCodes t)(gen_code U r1 \<mapsto> \<lparr>userId = uid, timestamp = clock t\<rparr>)) \<and>
         (r1 \<noteq> r2 \<longrightarrow>
            gen_code U r1 \<noteq> gen_code U r2 \<and>
            map_option userId (linkingCodes sf (gen_code U r1)) = Some uid \<and>
            map_option userId (linkingCodes sf (gen_code U r2)) = Some uid \<and>
            fst (on_text U None (gen_code U r1) chat1 sf) = Success \<and>
            fst (on_text U None (gen_code U r2) chat2
                   (snd (on_text U None (gen_code U r1) chat1 sf))) = Success \<and>
            fst (on_text U None (gen_code U r2) chat2 sf) = Success \<and>
            fst (on_text U None (gen_code U r1) chat1
                   (snd (on_text U None (gen_code U r2) chat2 sf))) = Success)"
proof -
  let ?c1 = "gen_code U r1" and ?c2 = "gen_code U r2"
  have i1: "issued_code (fst (link_initiate U botname uid resp1 r1 s)) = ?c1"
    using assms(1) by (simp add: link_initiate_def Let_def)
  have i2: "issued_code (fst (link_initiate U botname uid resp2 r2 t)) = ?c2"
    using assms(2) by (simp add: link_initiate_def Let_def)
  have over: "linkingCodes s2 = (linkingCodes t)(?c2 \<mapsto> \<lparr>userId = uid, timestamp = clock t\<rparr>)"
    using assms(2) by (simp add: assms(6) link_initiate_def Let_def)
  have at1: "linkingCodes s1 ?c1 = Some \<lparr>userId = uid, timestamp = clock s\<rparr>"
    using assms(1) by (simp add: assms(3) link_initiate_def Let_def)
  have att: "linkingCodes t ?c1 = Some \<lparr>userId = uid, timestamp = clock s\<rparr>"
    using untouched_run [OF assms(4)] at1 by (simp add: assms(5))
  have differ: ?thesis if ne: "r1 \<noteq> r2"
  proof -
    have d: "?c1 \<noteq> ?c2" using ne gen_code_inj by blast
    have l1: "linkingCodes sf ?c1 = Some \<lparr>userId = uid, timestamp = clock s\<rparr>"
      using untouched_run [OF assms(7)] att d by (simp add: assms(9) over)
    have l2: "linkingCodes sf ?c2 = Some \<lparr>userId = uid, timestamp = clock t\<rparr>"
      using untouched_run [OF assms(8)] by (simp add: assms(9) over)
    have first: "fst (on_text U None ?c1 chat1 sf) = Success"
      using l1 by (simp add: on_text_def text_begin_def normalized_gen_code text_resume_def
          db_upsert_def)
    have second: "fst (on_text U None ?c2 chat2 sf) = Success"
      using l2 by (simp add: on_text_def text_begin_def normalized_gen_code text_resume_def
          db_upsert_def)
    have after1: "linkingCodes (snd (on_text U None ?c1 chat1 sf)) ?c2
                  = Some \<lparr>userId = uid, timestamp = clock t\<rparr>"
      using l1 l2 d by (simp add: on_text_def text_begin_def normalized_gen_code
          text_resume_def db_upsert_def)
    have after2: "linkingCodes (snd (on_text U None ?c2 chat2 sf)) ?c1
                  = Some \<lparr>userId = uid, timestamp = clock s\<rparr>"
      using l1 l2 d by (simp add: on_text_def text_begin_def normalized_gen_code
          text_resume_def db_upsert_def)
    have then2: "fst (on_text U None ?c2 chat2 (snd (on_text U None ?c1 chat1 sf))) = Success"
      using after1 by (simp add: on_text_def [of U None ?c2] text_begin_def
          normalized_gen_code text_resume_def db_upsert_def)
    have then1: "fst (on_text U None ?c1 chat1 (snd (on_text U None ?c2 chat2 sf))) = Success"
      using after2 by (simp add: on_text_def [of U None ?c1] text_begin_def
          normalized_gen_code text_resume_def db_upsert_def)
    from i1 i2 ne d l1 l2 first second then1 then2 show ?thesis by simp
  qed
  have same: ?thesis if eq: "r1 = r2"
    using i1 i2 over eq by simp
  from differ same show ?thesis by blast
qed

theorem initiate_twice_witness:
  "\<forall>U sha256 hmac_sha256.
     falsy (snd (getTelegramChatId not_found)) \<and>
     ((0xA3, 0xB9, 0xC4) :: bytes3) \<noteq> (0x00, 0x11, 0x22) \<and>
     untouched U sha256 hmac_sha256 None (gen_code U (0xA3, 0xB9, 0xC4)) [Advance 1000]
       pairing_state \<and>
     untouched U sha256 hmac_sha256 None (gen_code U (0xA3, 0xB9, 0xC4)) [Advance 2000]
       (snd (link_initiate U None ''user-42'' not_found (0x00, 0x11, 0x22)
               (run U sha256 hmac_sha256 None [Advance 1000] pairing_state))) \<and>
     untouched U sha256 hmac_sha256 None (gen_code U (0x00, 0x11, 0x22)) [Advance 2000]
       (snd (link_initiate U None ''user-42'' not_found (0x00, 0x11, 0x22)
               (run U sha256 hmac_sha256 None [Advance 1000] pairing_state))) \<and>
     gen_code U (0xA3, 0xB9, 0xC4) \<noteq> gen_code U (0x00, 0x11, 0x22) \<and>
     fst (on_text U None (gen_code U (0xA3, 0xB9, 0xC4)) 998877
            (run U sha256 hmac_sha256 None [Advance 2000]
               (snd (link_initiate U None ''user-42'' not_found (0x00, 0x11, 0x22)
                       (run U sha256 hmac_sha256 None [Advance 1000] pairing_state)))))
       = Success \<and>
     fst (on_text U None (gen_code U (0x00, 0x11, 0x22)) 111
            (snd (on_text U None (gen_code U (0xA3, 0xB9, 0xC4)) 998877
               (run U sha256 hmac_sha256 None [Advance 2000]
                  (snd (link_initiate U None ''user-42'' not_found (0x00, 0x11, 0x22)
                          (run U sha256 hmac_sha256 None [Advance 1000] pairing_state)))))))
       = Success"
proof (intro allI)
  fix U :: upper_fn and sha256 :: sha256_fn and hmac_sha256 :: hmac_fn
  let ?t = "run U sha256 hmac_sha256 None [Advance 1000] pairing_state"
  let ?s2 = "snd (link_initiate U None ''user-42'' not_found (0x00, 0x11, 0x22) ?t)"
  have n: "falsy (snd (getTelegramChatId not_found))"
    by (simp add: getTelegramChatId_def not_found_def falsy_def)
  have d: "((0xA3, 0xB9, 0xC4) :: bytes3) \<noteq> (0x00, 0x11, 0x22)" by simp
  have one: "pairing_state
             = snd (link_initiate U None ''user-42'' not_found (0xA3, 0xB9, 0xC4) start_state)"
    by (simp add: example_initiate)
  have u1: "untouched U sha256 hmac_sha256 None (gen_code U (0xA3, 0xB9, 0xC4)) [Advance 1000]
              pairing_state"
    by (simp add: touches_def pairing_state_def)
  have tm: "timers ?s2 = [(600000, units ''A3B9C4''), (601000, units ''001122'')]"
    and ck: "clock ?s2 = 1000"
    using n by (simp_all add: run_def exec_def advance_def Let_def link_initiate_def
        example_other_code pairing_state_def ttl_ms_def)
  have u2: "untouched U sha256 hmac_sha256 None (gen_code U (0xA3, 0xB9, 0xC4)) [Advance 2000] ?s2"
    by (simp add: touches_def tm ck)
  have u3: "untouched U sha256 hmac_sha256 None (gen_code U (0x00, 0x11, 0x22)) [Advance 2000] ?s2"
    by (simp add: touches_def tm ck)
  note t = initiate_twice [OF n n one u1 refl refl u2 u3 refl, of 998877 111]
  from n d u1 u2 u3 t
  show "falsy (snd (getTelegramChatId not_found)) \<and>
     ((0xA3, 0xB9, 0xC4) :: bytes3) \<noteq> (0x00, 0x11, 0x22) \<and>
     untouched U sha256 hmac_sha256 None (gen_code U (0xA3, 0xB9, 0xC4)) [Advance 1000]
       pairing_state \<and>
     untouched U sha256 hmac_sha256 None (gen_code U (0xA3, 0xB9, 0xC4)) [Advance 2000] ?s2 \<and>
     untouched U sha256 hmac_sha256 None (gen_code U (0x00, 0x11, 0x22)) [Advance 2000] ?s2 \<and>
     gen_code U (0xA3, 0xB9, 0xC4) \<noteq> gen_code U (0x00, 0x11, 0x22) \<and>
     fst (on_text U None (gen_code U (0xA3, 0xB9, 0xC4)) 998877
            (run U sha256 hmac_sha256 None [Advance 2000] ?s2)) = Success \<and>
     fst (on_text U None (gen_code U (0x00, 0x11, 0x22)) 111
            (snd (on_text U None (gen_code U (0xA3, 0xB9, 0xC4)) 998877
               (run U sha256 hmac_sha256 None [Advance 2000] ?s2)))) = Success"
    by blast
qed

text \<open>
  C9 as stated fails when the two draws are equal: both calls issue A3B9C4, and the
  registry holds that one code. It fails when 600 seconds pass between the two calls: the
  timer has removed the first code, which no longer redeems. And a live code whose link
  write fails does not redeem successfully.
\<close>

theorem initiate_twice_collision_counterexample:
  "\<forall>U.
   falsy (snd (getTelegramChatId not_found)) \<and>
   issued_code (fst (link_initiate U None ''user-42'' not_found (0xA3, 0xB9, 0xC4) start_state))
     = units ''A3B9C4'' \<and>
   snd (link_initiate U None ''user-42'' not_found (0xA3, 0xB9, 0xC4) start_state)
     = pairing_state \<and>
   issued_code (fst (link_initiate U None ''user-42'' not_found (0xA3, 0xB9, 0xC4) pairing_state))
     = units ''A3B9C4'' \<and>
   dom (linkingCodes
          (snd (link_initiate U None ''user-42'' not_found (0xA3, 0xB9, 0xC4) pairing_state)))
     = {units ''A3B9C4''} \<and>
   fst (on_text U None (units ''A3B9C4'') 998877
          (snd (link_initiate U None ''user-42'' not_found (0x00, 0x11, 0x22)
                  (advance 600000 pairing_state)))) = Unrecognized \<and>
   fst (on_text U (Some timed_out) (units ''A3B9C4'') 998877 pairing_state) = PersistenceFailed"
proof (intro allI)
  fix U :: upper_fn
  have n: "falsy (snd (getTelegramChatId not_found))"
    by (simp add: getTelegramChatId_def not_found_def falsy_def)
  have f: "fst (on_text U (Some timed_out) (units ''A3B9C4'') 998877 pairing_state)
           = PersistenceFailed"
    by (simp add: on_text_def text_begin_def example_normalized_upper example_live
        db_upsert_def text_resume_def)
  have a: "issued_code
             (fst (link_initiate U None ''user-42'' not_found (0xA3, 0xB9, 0xC4) start_state))
           = units ''A3B9C4''"
    using n by (simp add: link_initiate_def Let_def example_code)
  have b: "issued_code
             (fst (link_initiate U None ''user-42'' not_found (0xA3, 0xB9, 0xC4) pairing_state))
           = units ''A3B9C4''"
    using n by (simp add: link_initiate_def Let_def example_code)
  have c: "dom (linkingCodes
          (snd (link_initiate U None ''user-42'' not_found (0xA3, 0xB9, 0xC4) pairing_state)))
     = {units ''A3B9C4''}"
    using n by (simp add: link_initiate_def Let_def example_code pairing_state_def)
  have ne: "units ''001122'' \<noteq> units ''A3B9C4''" by (simp add: units_def)
  have gone: "linkingCodes
                (snd (link_initiate U None ''user-42'' not_found (0x00, 0x11, 0x22)
                        (advance 600000 pairing_state))) (units ''A3B9C4'') = None"
    using n ne by (simp add: link_initiate_def Let_def example_other_code advance_def
        pairing_state_def)
  have e: "fst (on_text U None (units ''A3B9C4'') 998877
          (snd (link_initiate U None ''user-42'' not_found (0x00, 0x11, 0x22)
                  (advance 600000 pairing_state)))) = Unrecognized"
    using gone by (simp add: on_text_def text_begin_def example_normalized_upper)
  from n a b c e f example_initiate [of U]
  show "falsy (snd (getTelegramChatId not_found)) \<and>
   issued_code (fst (link_initiate U None ''user-42'' not_found (0xA3, 0xB9, 0xC4) start_state))
     = units ''A3B9C4'' \<and>
   snd (link_initiate U None ''user-42'' not_found (0xA3, 0xB9, 0xC4) start_state)
     = pairing_state \<and>
   issued_code (fst (link_initiate U None ''user-42'' not_found (0xA3, 0xB9, 0xC4) pairing_state))
     = units ''A3B9C4'' \<and>
   dom (linkingCodes
          (snd (link_initiate U None ''user-42'' not_found (0xA3, 0xB9, 0xC4) pairing_state)))
     = {units ''A3B9C4''} \<and>
   fst (on_text U None (units ''A3B9C4'') 998877
          (snd (link_initiate U None ''user-42'' not_found (0x00, 0x11, 0x22)
                  (advance 600000 pairing_state)))) = Unrecognized \<and>
   fst (on_text U (Some timed_out) (units ''A3B9C4'') 998877 pairing_state) = PersistenceFailed"
    by blast
qed

end
